theory Spec2Isabelle
  imports Complex_Main "HOL-Library.AList" "HOL-Library.Monad_Syntax"
begin

section \<open>Relevance window estimator (services/tmdb)\<close>

text \<open>
  JavaScript numbers that hold years, indices and counts are modelled as \<open>int\<close> and
  \<open>nat\<close>; the calendar year read from the clock (\<open>getCurrentYear\<close>) is the explicit
  parameter \<open>currentYear\<close>.
\<close>

record TMDBKnownFor =
  release_date :: "string option"
  first_air_date :: "string option"

record window =
  start :: int
  end_year :: int

text \<open>\<open>dateStr.split('-')[0]\<close>: the text before the first hyphen.\<close>

definition split_first :: "string \<Rightarrow> string" where
  "split_first s = takeWhile (\<lambda>c. c \<noteq> CHR ''-'') s"

text \<open>
  \<open>parseInt(s, 10)\<close> on the ASCII range: leading white space is skipped, one sign is
  accepted, the longest run of decimal digits is read, and the result is NaN (here
  \<open>None\<close>) when that run is empty.
\<close>

definition isWhiteSpace :: "char \<Rightarrow> bool" where
  "isWhiteSpace c = (c \<in> set [CHR '' '', CHR 0x09, CHR 0x0A, CHR 0x0B, CHR 0x0C, CHR 0x0D])"

definition isDigit :: "char \<Rightarrow> bool" where
  "isDigit c = (c \<in> set ''0123456789'')"

definition digitVal :: "char \<Rightarrow> nat" where
  "digitVal c = of_char c - of_char (CHR ''0'')"

definition digitsVal :: "string \<Rightarrow> nat" where
  "digitsVal ds = foldl (\<lambda>acc c. 10 * acc + digitVal c) 0 ds"

definition parseInt :: "string \<Rightarrow> int option" where
  "parseInt s =
     (let t = dropWhile isWhiteSpace s;
          sgn = (case t of c # _ \<Rightarrow> if c = CHR ''-'' then - 1 else 1 | [] \<Rightarrow> 1);
          u = (case t of c # r \<Rightarrow> if c = CHR ''-'' \<or> c = CHR ''+'' then r else t | [] \<Rightarrow> []);
          ds = takeWhile isDigit u
      in if ds = [] then None else Some (sgn * int (digitsVal ds)))"

text \<open>
  \<open>getYear\<close>: an absent or empty string gives null; otherwise the parsed prefix, null
  when it is NaN.
\<close>

definition getYear :: "string option \<Rightarrow> int option" where
  "getYear dateStr =
     (case dateStr of
        None \<Rightarrow> None
      | Some s \<Rightarrow> if s = [] then None else parseInt (split_first s))"

text \<open>
  \<open>getYear(work.release_date) || getYear(work.first_air_date)\<close>: the first operand wins
  unless it is falsy (null or 0).
\<close>

definition workYear :: "TMDBKnownFor \<Rightarrow> int option" where
  "workYear work =
     (case getYear (release_date work) of
        Some y \<Rightarrow> if y \<noteq> 0 then Some y else getYear (first_air_date work)
      | None \<Rightarrow> getYear (first_air_date work))"

text \<open>The loop that collects the usable years, in order.\<close>

fun collectYears :: "int \<Rightarrow> TMDBKnownFor list \<Rightarrow> int list" where
  "collectYears currentYear [] = []"
| "collectYears currentYear (work # rest) =
     (case workYear work of
        Some year \<Rightarrow>
          if year \<noteq> 0 \<and> year \<ge> 1920 \<and> year \<le> currentYear
          then year # collectYears currentYear rest
          else collectYears currentYear rest
      | None \<Rightarrow> collectYears currentYear rest)"

text \<open>
  The part of \<open>estimateRelevanceWindow\<close> after the loop. \<open>Math.min(...years)\<close> and
  \<open>Math.max(...years)\<close> are only reached with a non-empty list.
\<close>

definition windowOfYears :: "int \<Rightarrow> int list \<Rightarrow> window option" where
  "windowOfYears currentYear years =
     (case years of
        [] \<Rightarrow> None
      | y # ys \<Rightarrow>
          let minYear = fold min ys y;
              maxYear = fold max ys y;
              start0 = max 1950 (minYear - 3);
              end0 = min currentYear (maxYear + 3)
          in if end0 - start0 < 5
             then (let mid = (start0 + end0) div 2
                   in Some \<lparr>start = mid - 3, end_year = mid + 3\<rparr>)
             else Some \<lparr>start = start0, end_year = end0\<rparr>)"

definition estimateRelevanceWindow :: "int \<Rightarrow> TMDBKnownFor list \<Rightarrow> window option" where
  "estimateRelevanceWindow currentYear knownFor =
     windowOfYears currentYear (collectYears currentYear knownFor)"

section \<open>Stored sessions and the session routes (routes/api)\<close>

record Celebrity =
  id' :: int
  name :: string
  image_url :: string
  relevance_window :: window
  occupation :: string
  popularity_score :: int
  top_works :: "string list"

record Response =
  celebrityId :: int
  recognized :: bool
  timestamp :: string

text \<open>
  A row of the \<open>sessions\<close> table. The JSON text of the \<open>celebrities\<close> and
  \<open>responses\<close> columns is modelled as the value it encodes.
\<close>

record session_row =
  status_col :: string
  celebrities_col :: "Celebrity list"
  current_index :: int
  responses_col :: "Response list"
  completed_at :: "string option"

type_synonym db = "string \<rightharpoonup> session_row"

datatype http_error = HttpError nat string | TypeError

record RespondResponse =
  revealed :: Celebrity
  recognized_echo :: bool
  nextIndex :: int
  isComplete :: bool
  nextCelebrity :: "Celebrity option"

text \<open>
  \<open>POST /session/start\<close> after the candidate pool has been fetched and shuffled:
  \<open>selected\<close> is the outcome of \<open>selectCelebritiesForSession\<close> and \<open>sessionId\<close> the fresh
  UUID. An insert under a primary key already present fails, which the route reports as
  a failed start.
\<close>

definition startSession :: "db \<Rightarrow> string \<Rightarrow> Celebrity list \<Rightarrow> (http_error + unit) \<times> db" where
  "startSession d sessionId selected =
     (if length selected < 5
      then (Inl (HttpError 500 ''Not enough celebrity data available''), d)
      else if d sessionId \<noteq> None
      then (Inl (HttpError 500 ''Failed to start session''), d)
      else (Inr (),
            d(sessionId \<mapsto> \<lparr>status_col = ''playing'', celebrities_col = selected,
                             current_index = 0, responses_col = [], completed_at = None\<rparr>)))"

text \<open>
  \<open>POST /session/:id/respond\<close>. \<open>now\<close> is the ISO text of the clock. Reading
  \<open>celebrities[currentIndex].id\<close> at a negative index throws a TypeError before any write.
\<close>

definition respond :: "db \<Rightarrow> string \<Rightarrow> string \<Rightarrow> bool \<Rightarrow> (http_error + RespondResponse) \<times> db" where
  "respond d now sessionId body_recognized =
     (case d sessionId of
        None \<Rightarrow> (Inl (HttpError 404 ''Session not found''), d)
      | Some result \<Rightarrow>
          let celebrities = celebrities_col result;
              currentIndex = current_index result;
              responses = responses_col result
          in if currentIndex \<ge> int (length celebrities)
             then (Inl (HttpError 400 ''Session already complete''), d)
             else if currentIndex < 0 then (Inl TypeError, d)
             else
               let responses' = responses @
                     [\<lparr>celebrityId = id' (celebrities ! nat currentIndex),
                       recognized = body_recognized, timestamp = now\<rparr>];
                   nextIndex = currentIndex + 1;
                   isComplete = (nextIndex \<ge> int (length celebrities));
                   currentCelebrity = celebrities ! nat currentIndex
               in (Inr \<lparr>revealed = currentCelebrity, recognized_echo = body_recognized,
                         nextIndex = nextIndex, isComplete = isComplete,
                         nextCelebrity = (if \<not> isComplete then Some (celebrities ! nat nextIndex)
                                          else None)\<rparr>,
                   d(sessionId \<mapsto> result\<lparr>current_index := nextIndex, responses_col := responses',
                        status_col := (if isComplete then ''results'' else ''playing''),
                        completed_at := (if isComplete then Some now else None)\<rparr>)))"

text \<open>The stores that the two writing routes can produce from the empty table.\<close>

inductive reachable_db :: "db \<Rightarrow> bool" where
  empty: "reachable_db Map.empty"
| start: "reachable_db d \<Longrightarrow> reachable_db (snd (startSession d sessionId selected))"
| respond: "reachable_db d \<Longrightarrow> reachable_db (snd (respond d now sessionId r))"

section \<open>Era distribution and metrics (the results route)\<close>

text \<open>
  Rates are JavaScript doubles in the source. In the functions of this section they
  are exact rationals, so statements about them are about the arithmetic the code
  intends, not about rounding in the last binary place. Where the outcome depends on
  that rounding, in the choice of the peak decade among decades with equal means, the
  route is modelled again below with the rounding of doubles.
\<close>

text \<open>
  An entry \<open>{recognized, total}\<close> of \<open>yearScores\<close>; its first field is named
  \<open>recognizedCount\<close> here, apart from the field \<open>recognized\<close> of a response.
\<close>

record yearScore =
  recognizedCount :: nat
  total :: nat

text \<open>
  \<open>yearScores\<close> is an object with integer keys; \<open>Object.entries\<close> lists such keys in
  ascending order, which is also the order in which they are inserted here.
\<close>

type_synonym yearScores = "(int \<times> yearScore) list"

record dpoint =
  year :: int
  rate :: rat

record point = dpoint +
  sampleSize :: nat

text \<open>An entry \<open>{total, sum}\<close> of \<open>decadeRates\<close>, as \<open>count\<close> and \<open>sum_rate\<close>.\<close>

record decadeStat =
  count :: nat
  sum_rate :: rat

record ResultMetrics =
  peakDecade :: string
  centerOfGravity :: int
  breadth :: int
  overallRate :: int
  nostalgiaIndex :: rat

record ResultsResponse =
  res_distribution :: "dpoint list"
  res_metrics :: ResultMetrics
  res_celebrities :: "Celebrity list"
  res_responses :: "Response list"

definition initialScores :: "int \<Rightarrow> yearScores" where
  "initialScores currentYear =
     map (\<lambda>year. (year, \<lparr>recognizedCount = 0, total = 0\<rparr>)) [1950..currentYear]"

text \<open>The body of the inner loop: a year without an entry is skipped.\<close>

definition tallyYear :: "bool \<Rightarrow> int \<Rightarrow> yearScores \<Rightarrow> yearScores" where
  "tallyYear rec yr yearScores =
     (case map_of yearScores yr of
        None \<Rightarrow> yearScores
      | Some sc \<Rightarrow>
          AList.update yr
            \<lparr>recognizedCount = (if rec then recognizedCount sc + 1 else recognizedCount sc),
             total = total sc + 1\<rparr> yearScores)"

definition tallyResponse :: "Celebrity list \<Rightarrow> Response \<Rightarrow> yearScores \<Rightarrow> yearScores" where
  "tallyResponse celebrities response yearScores =
     (case find (\<lambda>c. id' c = celebrityId response) celebrities of
        None \<Rightarrow> yearScores
      | Some celeb \<Rightarrow>
          fold (tallyYear (recognized response))
            [start (relevance_window celeb)..end_year (relevance_window celeb)] yearScores)"

definition tally :: "int \<Rightarrow> Celebrity list \<Rightarrow> Response list \<Rightarrow> yearScores" where
  "tally currentYear celebrities responses =
     fold (tallyResponse celebrities) responses (initialScores currentYear)"

fun distribution_of :: "yearScores \<Rightarrow> point list" where
  "distribution_of [] = []"
| "distribution_of ((yr, scores) # entries) =
     (if total scores > 0
      then \<lparr>year = yr, rate = of_nat (recognizedCount scores) / of_nat (total scores),
            sampleSize = total scores\<rparr> # distribution_of entries
      else distribution_of entries)"

text \<open>The accumulation over one smoothing window: \<open>(totalWeight, weightedSum)\<close>.\<close>

definition windowSums :: "point list \<Rightarrow> int \<Rightarrow> int \<Rightarrow> nat \<times> rat" where
  "windowSums distribution windowStart windowEnd =
     fold (\<lambda>j (totalWeight, weightedSum).
             let weight = sampleSize (distribution ! nat j)
             in (totalWeight + weight,
                 weightedSum + rate (distribution ! nat j) * of_nat weight))
       [windowStart..windowEnd] (0, 0)"

definition smoothPoint :: "point list \<Rightarrow> nat \<Rightarrow> dpoint" where
  "smoothPoint distribution i =
     (let windowSize = 5 :: int;
          half = windowSize div 2;
          windowStart = max 0 (int i - half);
          windowEnd = min (int (length distribution) - 1) (int i + half);
          (totalWeight, weightedSum) = windowSums distribution windowStart windowEnd
      in \<lparr>year = year (distribution ! i),
          rate = (if totalWeight > 0 then weightedSum / of_nat totalWeight else 0)\<rparr>)"

definition smoothed_of :: "point list \<Rightarrow> dpoint list" where
  "smoothed_of distribution = map (smoothPoint distribution) [0..<length distribution]"

text \<open>Decimal text of an integer, as a template literal prints it.\<close>

fun showNat :: "nat \<Rightarrow> string" where
  "showNat n =
     (if n < 10 then [char_of (48 + n)]
      else showNat (n div 10) @ [char_of (48 + n mod 10)])"

definition showInt :: "int \<Rightarrow> string" where
  "showInt i = (if i < 0 then CHR ''-'' # showNat (nat (- i)) else showNat (nat i))"

definition decadeLabel :: "int \<Rightarrow> string" where
  "decadeLabel yr = showInt ((yr div 10) * 10) @ ''s''"

text \<open>
  \<open>decadeRates\<close> has string keys, which \<open>Object.entries\<close> lists in insertion order: a
  new decade goes to the end. Sums and means are exact here; \<open>addDecade_r\<close>,
  \<open>avgRate_r\<close> and \<open>peakDecade_r\<close> below round them as the source does.
\<close>

definition addDecade :: "dpoint \<Rightarrow> (string \<times> decadeStat) list \<Rightarrow> (string \<times> decadeStat) list" where
  "addDecade p decadeRates =
     (let decade = decadeLabel (year p);
          st = (case map_of decadeRates decade of
                  None \<Rightarrow> \<lparr>count = 0, sum_rate = 0\<rparr>
                | Some st \<Rightarrow> st)
      in AList.update decade \<lparr>count = count st + 1, sum_rate = sum_rate st + rate p\<rparr>
           decadeRates)"

definition decadeRates_of :: "dpoint list \<Rightarrow> (string \<times> decadeStat) list" where
  "decadeRates_of smoothed = fold addDecade smoothed []"

definition avgRate :: "decadeStat \<Rightarrow> rat" where
  "avgRate stats = (if count stats > 0 then sum_rate stats / of_nat (count stats) else 0)"

definition peakStep :: "string \<times> decadeStat \<Rightarrow> string \<times> rat \<Rightarrow> string \<times> rat" where
  "peakStep entry peak =
     (if avgRate (snd entry) > snd peak then (fst entry, avgRate (snd entry)) else peak)"

definition peakDecade_of :: "dpoint list \<Rightarrow> string" where
  "peakDecade_of smoothed = fst (fold peakStep (decadeRates_of smoothed) (''1990s'', 0))"

text \<open>The accumulation of the centre of gravity: \<open>(totalWeight, weightedYearSum)\<close>.\<close>

definition gravitySums :: "point list \<Rightarrow> rat \<times> rat" where
  "gravitySums distribution =
     fold (\<lambda>p (totalWeight, weightedYearSum).
             let weight = rate p * of_nat (sampleSize p)
             in (totalWeight + weight, weightedYearSum + of_int (year p) * weight))
       distribution (0, 0)"

text \<open>\<open>Math.round\<close> rounds a half towards plus infinity, as \<^const>\<open>round\<close> does.\<close>

definition centerOfGravity_of :: "int \<Rightarrow> point list \<Rightarrow> int" where
  "centerOfGravity_of currentYear distribution =
     (let (totalWeight, weightedYearSum) = gravitySums distribution
      in if totalWeight > 0 then round (weightedYearSum / totalWeight) else currentYear)"

definition overallRate_of :: "Response list \<Rightarrow> rat" where
  "overallRate_of responses =
     (let totalRecognized = length (filter recognized responses)
      in if length responses > 0 then of_nat totalRecognized / of_nat (length responses) else 0)"

text \<open>
  \<open>Math.max(...rates, 0.01)\<close> is the largest of the rates and 0.01. The two spreads over
  \<open>yearsAboveThreshold\<close> are only evaluated when that list is not empty.
\<close>

definition breadth_of :: "point list \<Rightarrow> int" where
  "breadth_of distribution =
     (let peakRate = fold max (map rate distribution) (1 / 100);
          threshold = peakRate * (1 / 2);
          yearsAboveThreshold = map year (filter (\<lambda>d. rate d \<ge> threshold) distribution)
      in case yearsAboveThreshold of
           [] \<Rightarrow> 0
         | y # ys \<Rightarrow> fold max ys y - fold min ys y)"

definition meanRate :: "dpoint list \<Rightarrow> rat" where
  "meanRate ds =
     (if length ds > 0 then fold (\<lambda>d s. s + rate d) ds 0 / of_nat (length ds) else 0)"

definition nostalgiaIndex_of :: "dpoint list \<Rightarrow> rat" where
  "nostalgiaIndex_of smoothed =
     (let pre2000 = filter (\<lambda>d. year d < 2000) smoothed;
          post2000 = filter (\<lambda>d. year d \<ge> 2000) smoothed;
          pre2000Avg = meanRate pre2000;
          post2000Avg = meanRate post2000
      in if post2000Avg > 0 then pre2000Avg / post2000Avg else 1)"

text \<open>The payload of \<open>GET /session/:id/results\<close> for a stored session.\<close>

definition results :: "int \<Rightarrow> Celebrity list \<Rightarrow> Response list \<Rightarrow> ResultsResponse" where
  "results currentYear celebrities responses =
     (let distribution = distribution_of (tally currentYear celebrities responses);
          smoothed = smoothed_of distribution
      in \<lparr>res_distribution = smoothed,
          res_metrics =
            \<lparr>peakDecade = peakDecade_of smoothed,
             centerOfGravity = centerOfGravity_of currentYear distribution,
             breadth = breadth_of distribution,
             overallRate = round (overallRate_of responses * 100),
             nostalgiaIndex = of_int (round (nostalgiaIndex_of smoothed * 10)) / 10\<rparr>,
          res_celebrities = celebrities,
          res_responses = responses\<rparr>)"

definition resultsRoute :: "db \<Rightarrow> int \<Rightarrow> string \<Rightarrow> http_error + ResultsResponse" where
  "resultsRoute d currentYear sessionId =
     (case d sessionId of
        None \<Rightarrow> Inl (HttpError 404 ''Session not found'')
      | Some result \<Rightarrow> Inr (results currentYear (celebrities_col result) (responses_col result)))"

subsection \<open>The same computation with divisions that can fail\<close>

text \<open>
  A JavaScript division by zero does not throw: it yields NaN or an infinity.
  In this second model of the results route such a division yields \<open>None\<close>, and
  \<open>None\<close> propagates to the payload. Every guard is the one of the source.
\<close>

definition divide_checked :: "rat \<Rightarrow> rat \<Rightarrow> rat option" where
  "divide_checked a b = (if b = 0 then None else Some (a / b))"

fun distribution_checked :: "yearScores \<Rightarrow> point list option" where
  "distribution_checked [] = Some []"
| "distribution_checked ((yr, scores) # entries) =
     (if total scores > 0
      then do {
        r \<leftarrow> divide_checked (of_nat (recognizedCount scores)) (of_nat (total scores));
        rest \<leftarrow> distribution_checked entries;
        Some (\<lparr>year = yr, rate = r, sampleSize = total scores\<rparr> # rest)
      }
      else distribution_checked entries)"

definition smoothPoint_checked :: "point list \<Rightarrow> nat \<Rightarrow> dpoint option" where
  "smoothPoint_checked distribution i =
     (let windowSize = 5 :: int;
          half = windowSize div 2;
          windowStart = max 0 (int i - half);
          windowEnd = min (int (length distribution) - 1) (int i + half);
          (totalWeight, weightedSum) = windowSums distribution windowStart windowEnd
      in do {
        r \<leftarrow> (if totalWeight > 0 then divide_checked weightedSum (of_nat totalWeight)
              else Some 0);
        Some \<lparr>year = year (distribution ! i), rate = r\<rparr>
      })"

definition smoothed_checked :: "point list \<Rightarrow> dpoint list option" where
  "smoothed_checked distribution =
     those (map (smoothPoint_checked distribution) [0..<length distribution])"

definition avgRate_checked :: "decadeStat \<Rightarrow> rat option" where
  "avgRate_checked stats =
     (if count stats > 0 then divide_checked (sum_rate stats) (of_nat (count stats)) else Some 0)"

definition peakStep_checked ::
    "string \<times> decadeStat \<Rightarrow> (string \<times> rat) option \<Rightarrow> (string \<times> rat) option" where
  "peakStep_checked entry peak =
     do {
       pk \<leftarrow> peak;
       a \<leftarrow> avgRate_checked (snd entry);
       Some (if a > snd pk then (fst entry, a) else pk)
     }"

definition peakDecade_checked :: "dpoint list \<Rightarrow> string option" where
  "peakDecade_checked smoothed =
     map_option fst (fold peakStep_checked (decadeRates_of smoothed) (Some (''1990s'', 0)))"

definition centerOfGravity_checked :: "int \<Rightarrow> point list \<Rightarrow> int option" where
  "centerOfGravity_checked currentYear distribution =
     (let (totalWeight, weightedYearSum) = gravitySums distribution
      in if totalWeight > 0 then map_option round (divide_checked weightedYearSum totalWeight)
         else Some currentYear)"

definition overallRate_checked :: "Response list \<Rightarrow> rat option" where
  "overallRate_checked responses =
     (let totalRecognized = length (filter recognized responses)
      in if length responses > 0
         then divide_checked (of_nat totalRecognized) (of_nat (length responses))
         else Some 0)"

definition meanRate_checked :: "dpoint list \<Rightarrow> rat option" where
  "meanRate_checked ds =
     (if length ds > 0
      then divide_checked (fold (\<lambda>d s. s + rate d) ds 0) (of_nat (length ds))
      else Some 0)"

definition nostalgiaIndex_checked :: "dpoint list \<Rightarrow> rat option" where
  "nostalgiaIndex_checked smoothed =
     (let pre2000 = filter (\<lambda>d. year d < 2000) smoothed;
          post2000 = filter (\<lambda>d. year d \<ge> 2000) smoothed
      in do {
        pre2000Avg \<leftarrow> meanRate_checked pre2000;
        post2000Avg \<leftarrow> meanRate_checked post2000;
        if post2000Avg > 0 then divide_checked pre2000Avg post2000Avg else Some 1
      })"

definition results_checked :: "int \<Rightarrow> Celebrity list \<Rightarrow> Response list \<Rightarrow> ResultsResponse option" where
  "results_checked currentYear celebrities responses =
     do {
       distribution \<leftarrow> distribution_checked (tally currentYear celebrities responses);
       smoothed \<leftarrow> smoothed_checked distribution;
       pd \<leftarrow> peakDecade_checked smoothed;
       cog \<leftarrow> centerOfGravity_checked currentYear distribution;
       orate \<leftarrow> overallRate_checked responses;
       ni \<leftarrow> nostalgiaIndex_checked smoothed;
       ni10 \<leftarrow> divide_checked (of_int (round (ni * 10))) 10;
       Some \<lparr>res_distribution = smoothed,
             res_metrics =
               \<lparr>peakDecade = pd, centerOfGravity = cog, breadth = breadth_of distribution,
                overallRate = round (orate * 100), nostalgiaIndex = ni10\<rparr>,
             res_celebrities = celebrities, res_responses = responses\<rparr>
     }"

subsection \<open>The path to the peak decade in double arithmetic\<close>

text \<open>
  Which decade wins the peak can depend on the rounding of the sums. This part of the
  route is therefore modelled a second time, with every arithmetic result rounded by a
  parameter \<open>rnd\<close>: the identity gives the exact functions above, \<open>fl\<close> gives the
  arithmetic of the source.
\<close>

text \<open>Rounding to the nearest integer, a half to the even neighbour.\<close>

definition roundEven :: "rat \<Rightarrow> int" where
  "roundEven q =
     (let f = \<lfloor>q\<rfloor>; r = q - of_int f
      in if r < 1 / 2 then f else if r > 1 / 2 then f + 1 else if even f then f else f + 1)"

text \<open>
  The binary exponent of a positive number: the \<open>e\<close> with \<open>2 ^ e \<le> x < 2 ^ (e + 1)\<close>, found by
  halving or doubling; the bound on the steps covers the range of a double.
\<close>

fun expoAux :: "nat \<Rightarrow> rat \<Rightarrow> int" where
  "expoAux 0 x = 0"
| "expoAux (Suc n) x =
     (if x \<ge> 2 then expoAux n (x / 2) + 1
      else if x < 1 then expoAux n (x * 2) - 1
      else 0)"

definition expo :: "rat \<Rightarrow> int" where
  "expo x = expoAux 1100 \<bar>x\<bar>"

definition pow2 :: "int \<Rightarrow> rat" where
  "pow2 e = (if e \<ge> 0 then 2 ^ nat e else 1 / 2 ^ nat (- e))"

text \<open>
  The double nearest to a rational, by the default rounding of IEEE 754 (to nearest,
  ties to even) with 53 significant bits. Overflow and subnormal numbers are left out:
  the values met here are 0 or lie between \<open>2 ^ - 1022\<close> and \<open>2 ^ 1023\<close>.
\<close>

definition fl :: "rat \<Rightarrow> rat" where
  "fl x = (if x = 0 then 0
           else let ulp = pow2 (expo x - 52) in of_int (roundEven (x / ulp)) * ulp)"

text \<open>
  The functions of the route on the way to the peak decade, with \<open>rnd\<close> applied to the
  result of every division, multiplication and addition of rates. Counts are integers
  below \<open>2 ^ 53\<close> and need no rounding; comparisons are exact.
\<close>

fun distribution_r :: "(rat \<Rightarrow> rat) \<Rightarrow> yearScores \<Rightarrow> point list" where
  "distribution_r rnd [] = []"
| "distribution_r rnd ((yr, scores) # entries) =
     (if total scores > 0
      then \<lparr>year = yr, rate = rnd (of_nat (recognizedCount scores) / of_nat (total scores)),
            sampleSize = total scores\<rparr> # distribution_r rnd entries
      else distribution_r rnd entries)"

definition windowSums_r :: "(rat \<Rightarrow> rat) \<Rightarrow> point list \<Rightarrow> int \<Rightarrow> int \<Rightarrow> nat \<times> rat" where
  "windowSums_r rnd distribution windowStart windowEnd =
     fold (\<lambda>j (totalWeight, weightedSum).
             let weight = sampleSize (distribution ! nat j)
             in (totalWeight + weight,
                 rnd (weightedSum + rnd (rate (distribution ! nat j) * of_nat weight))))
       [windowStart..windowEnd] (0, 0)"

definition smoothPoint_r :: "(rat \<Rightarrow> rat) \<Rightarrow> point list \<Rightarrow> nat \<Rightarrow> dpoint" where
  "smoothPoint_r rnd distribution i =
     (let windowSize = 5 :: int;
          half = windowSize div 2;
          windowStart = max 0 (int i - half);
          windowEnd = min (int (length distribution) - 1) (int i + half);
          (totalWeight, weightedSum) = windowSums_r rnd distribution windowStart windowEnd
      in \<lparr>year = year (distribution ! i),
          rate = (if totalWeight > 0 then rnd (weightedSum / of_nat totalWeight) else 0)\<rparr>)"

definition smoothed_r :: "(rat \<Rightarrow> rat) \<Rightarrow> point list \<Rightarrow> dpoint list" where
  "smoothed_r rnd distribution = map (smoothPoint_r rnd distribution) [0..<length distribution]"

definition addDecade_r ::
    "(rat \<Rightarrow> rat) \<Rightarrow> dpoint \<Rightarrow> (string \<times> decadeStat) list \<Rightarrow> (string \<times> decadeStat) list" where
  "addDecade_r rnd p decadeRates =
     (let decade = decadeLabel (year p);
          st = (case map_of decadeRates decade of
                  None \<Rightarrow> \<lparr>count = 0, sum_rate = 0\<rparr>
                | Some st \<Rightarrow> st)
      in AList.update decade \<lparr>count = count st + 1, sum_rate = rnd (sum_rate st + rate p)\<rparr>
           decadeRates)"

definition decadeRates_r :: "(rat \<Rightarrow> rat) \<Rightarrow> dpoint list \<Rightarrow> (string \<times> decadeStat) list" where
  "decadeRates_r rnd smoothed = fold (addDecade_r rnd) smoothed []"

definition avgRate_r :: "(rat \<Rightarrow> rat) \<Rightarrow> decadeStat \<Rightarrow> rat" where
  "avgRate_r rnd stats =
     (if count stats > 0 then rnd (sum_rate stats / of_nat (count stats)) else 0)"

definition peakStep_r ::
    "(rat \<Rightarrow> rat) \<Rightarrow> string \<times> decadeStat \<Rightarrow> string \<times> rat \<Rightarrow> string \<times> rat" where
  "peakStep_r rnd entry peak =
     (if avgRate_r rnd (snd entry) > snd peak then (fst entry, avgRate_r rnd (snd entry))
      else peak)"

definition peakDecade_r :: "(rat \<Rightarrow> rat) \<Rightarrow> dpoint list \<Rightarrow> string" where
  "peakDecade_r rnd smoothed =
     fst (fold (peakStep_r rnd) (decadeRates_r rnd smoothed) (''1990s'', 0))"

definition routeSmoothed ::
    "(rat \<Rightarrow> rat) \<Rightarrow> int \<Rightarrow> Celebrity list \<Rightarrow> Response list \<Rightarrow> dpoint list" where
  "routeSmoothed rnd currentYear celebs rs =
     smoothed_r rnd (distribution_r rnd (tally currentYear celebs rs))"

definition routePeakDecade ::
    "(rat \<Rightarrow> rat) \<Rightarrow> int \<Rightarrow> Celebrity list \<Rightarrow> Response list \<Rightarrow> string" where
  "routePeakDecade rnd currentYear celebs rs =
     peakDecade_r rnd (routeSmoothed rnd currentYear celebs rs)"

section \<open>The client's game state (frontend App)\<close>

datatype status = Intro | Playing | Reveal | Results

record GameState =
  sessionId :: "string option"
  status :: status
  celebrities :: "Celebrity list"
  currentIndex :: nat
  responses :: "Response list"
  currentCelebrity :: "Celebrity option"
  lastResponse :: "bool option"

text \<open>
  The component state that the transitions touch: the game state and the map of local
  answers. Each callback is modelled as one atomic update.
\<close>

record App =
  state :: GameState
  localResponses :: "int \<rightharpoonup> bool"

definition initialState :: GameState where
  "initialState =
     \<lparr>sessionId = None, status = Intro, celebrities = [], currentIndex = 0, responses = [],
      currentCelebrity = None, lastResponse = None\<rparr>"

text \<open>\<open>startGame\<close> on a successful reply carrying \<open>data_sessionId\<close> and \<open>data_celebrities\<close>.\<close>

definition startGame :: "string \<Rightarrow> Celebrity list \<Rightarrow> App \<Rightarrow> App" where
  "startGame data_sessionId data_celebrities app =
     \<lparr>state =
        \<lparr>sessionId = Some data_sessionId, status = Playing, celebrities = data_celebrities,
         currentIndex = 0, responses = [],
         currentCelebrity = (case data_celebrities of [] \<Rightarrow> None | c # _ \<Rightarrow> Some c),
         lastResponse = None\<rparr>,
      localResponses = Map.empty\<rparr>"

definition submitResponse :: "bool \<Rightarrow> App \<Rightarrow> App" where
  "submitResponse rec app =
     (case currentCelebrity (state app) of
        None \<Rightarrow> app
      | Some c \<Rightarrow>
          \<lparr>state = (state app)\<lparr>status := Reveal, lastResponse := Some rec\<rparr>,
           localResponses = (localResponses app)(id' c \<mapsto> rec)\<rparr>)"

text \<open>\<open>completeGame\<close> when the submission succeeds.\<close>

definition completeGame :: "App \<Rightarrow> App" where
  "completeGame app =
     (case sessionId (state app) of
        None \<Rightarrow> app
      | Some _ \<Rightarrow> app\<lparr>state := (state app)\<lparr>status := Results\<rparr>\<rparr>)"

definition nextCelebrity_step :: "App \<Rightarrow> App" where
  "nextCelebrity_step app =
     (let nextIndex = currentIndex (state app) + 1
      in if nextIndex \<ge> length (celebrities (state app)) then completeGame app
         else
           let nextCeleb = celebrities (state app) ! nextIndex;
               existingAnswer = localResponses app (id' nextCeleb)
           in app\<lparr>state := (state app)
                 \<lparr>status := (if existingAnswer \<noteq> None then Reveal else Playing),
                  currentIndex := nextIndex,
                  currentCelebrity := Some nextCeleb,
                  lastResponse := existingAnswer\<rparr>\<rparr>)"

text \<open>
  \<open>goBack\<close>: reading \<open>prevCeleb.id\<close> throws when the previous index is outside the
  list; that outcome is \<open>None\<close>.
\<close>

definition goBack :: "App \<Rightarrow> App option" where
  "goBack app =
     (if currentIndex (state app) \<le> 0 then Some app
      else
        let prevIndex = currentIndex (state app) - 1
        in if prevIndex \<ge> length (celebrities (state app)) then None
           else
             let prevCeleb = celebrities (state app) ! prevIndex;
                 existingAnswer = localResponses app (id' prevCeleb)
             in Some (app\<lparr>state := (state app)
                   \<lparr>status := (if existingAnswer \<noteq> None then Reveal else Playing),
                    currentIndex := prevIndex,
                    currentCelebrity := Some prevCeleb,
                    lastResponse := existingAnswer\<rparr>\<rparr>))"

definition changeAnswer :: "App \<Rightarrow> App" where
  "changeAnswer app = app\<lparr>state := (state app)\<lparr>status := Playing, lastResponse := None\<rparr>\<rparr>"

definition playAgain :: "App \<Rightarrow> App" where
  "playAgain app = app\<lparr>state := initialState\<rparr>"

text \<open>
  The states the interface can reach. Each callback is offered only on the screen, or
  by the key handler, of the status named in its rule; a game starts with the list the
  server selected, which the start route refuses to be shorter than 5.
\<close>

inductive reachable_app :: "App \<Rightarrow> bool" where
  init: "reachable_app \<lparr>state = initialState, localResponses = Map.empty\<rparr>"
| start_game: "reachable_app app \<Longrightarrow> status (state app) = Intro \<Longrightarrow> 5 \<le> length cs \<Longrightarrow>
     reachable_app (startGame sid cs app)"
| submit: "reachable_app app \<Longrightarrow> status (state app) = Playing \<Longrightarrow>
     reachable_app (submitResponse rec app)"
| next_celebrity: "reachable_app app \<Longrightarrow> status (state app) = Reveal \<Longrightarrow>
     reachable_app (nextCelebrity_step app)"
| complete: "reachable_app app \<Longrightarrow> status (state app) = Reveal \<Longrightarrow>
     currentIndex (state app) + 1 \<ge> length (celebrities (state app)) \<Longrightarrow>
     reachable_app (completeGame app)"
| go_back: "reachable_app app \<Longrightarrow> status (state app) = Playing \<or> status (state app) = Reveal \<Longrightarrow>
     goBack app = Some app' \<Longrightarrow> reachable_app app'"
| change_answer: "reachable_app app \<Longrightarrow> status (state app) = Reveal \<Longrightarrow>
     reachable_app (changeAnswer app)"
| play_again: "reachable_app app \<Longrightarrow> reachable_app (playAgain app)"

section \<open>Notions used to state the properties\<close>

text \<open>The window invariant of the data model: ordered, and inside \<open>[1950, currentYear]\<close>.\<close>

definition window_in_range :: "int \<Rightarrow> window \<Rightarrow> bool" where
  "window_in_range currentYear w =
     (start w \<le> end_year w \<and> 1950 \<le> start w \<and> end_year w \<le> currentYear)"

text \<open>
  The test of the minimum-span branch, \<open>end - start < 5\<close>, on the clamped bounds of a
  non-empty list of years.
\<close>

definition recentred :: "int \<Rightarrow> int list \<Rightarrow> bool" where
  "recentred currentYear years =
     (min currentYear (Max (set years) + 3) - max 1950 (Min (set years) - 3) < 5)"

definition hint :: "string \<Rightarrow> TMDBKnownFor" where
  "hint d = \<lparr>release_date = Some d, first_air_date = None\<rparr>"

text \<open>The invariant of a stored session row.\<close>

definition row_ok :: "session_row \<Rightarrow> bool" where
  "row_ok s =
     (0 \<le> current_index s \<and>
      (status_col s = ''playing'' \<and> current_index s < int (length (celebrities_col s)) \<or>
       status_col s = ''results'' \<and> current_index s \<ge> int (length (celebrities_col s))))"

text \<open>
  What the specification says of the session after \<open>submitAnswer\<close>: status reveal, index
  unchanged.
\<close>

definition submit_as_specified :: "session_row \<Rightarrow> session_row \<Rightarrow> bool" where
  "submit_as_specified s s' =
     (status_col s' = ''reveal'' \<and> current_index s' = current_index s)"

text \<open>Sample data.\<close>

definition celeb :: "int \<Rightarrow> int \<Rightarrow> int \<Rightarrow> Celebrity" where
  "celeb i a b =
     \<lparr>id' = i, name = ''Figure'', image_url = ''https://image.tmdb.org/t/p/w500/p.jpg'',
      relevance_window = \<lparr>start = a, end_year = b\<rparr>, occupation = ''Acting'',
      popularity_score = 50, top_works = [''Work'']\<rparr>"

definition answer :: "int \<Rightarrow> bool \<Rightarrow> Response" where
  "answer i rec = \<lparr>celebrityId = i, recognized = rec, timestamp = ''2024-01-01T00:00:00.000Z''\<rparr>"

definition five :: "Celebrity list" where
  "five = [celeb 1 1970 1976, celeb 2 1977 1983, celeb 3 1977 1983, celeb 4 1990 2000,
           celeb 5 2005 2015]"

definition started_db :: db where
  "started_db = snd (startSession Map.empty ''s1'' five)"

definition answered_db :: "nat \<Rightarrow> db" where
  "answered_db n = ((\<lambda>d. snd (respond d ''2024-01-01T00:00:00.000Z'' ''s1'' True)) ^^ n) started_db"

definition started_app :: App where
  "started_app = startGame ''s1'' five \<lparr>state = initialState, localResponses = Map.empty\<rparr>"

text \<open>
  Whether an answer counts for year \<open>y\<close>: its figure is found (the first one with that
  id) and \<open>y\<close> lies in the figure's relevance window.
\<close>

definition covers :: "Celebrity list \<Rightarrow> int \<Rightarrow> Response \<Rightarrow> bool" where
  "covers celebs y r =
     (case find (\<lambda>c. id' c = celebrityId r) celebs of
        None \<Rightarrow> False
      | Some c \<Rightarrow> start (relevance_window c) \<le> y \<and> y \<le> end_year (relevance_window c))"

definition bump :: "bool \<Rightarrow> yearScore \<Rightarrow> yearScore" where
  "bump rec sc =
     \<lparr>recognizedCount = (if rec then recognizedCount sc + 1 else recognizedCount sc),
      total = total sc + 1\<rparr>"

text \<open>The counts of a year, stated directly over the answers.\<close>

definition counts :: "Celebrity list \<Rightarrow> Response list \<Rightarrow> int \<Rightarrow> yearScore" where
  "counts celebs rs y =
     \<lparr>recognizedCount = length (filter (\<lambda>r. covers celebs y r \<and> recognized r) rs),
      total = length (filter (covers celebs y) rs)\<rparr>"

definition rawPoint :: "Celebrity list \<Rightarrow> Response list \<Rightarrow> int \<Rightarrow> point" where
  "rawPoint celebs rs y =
     \<lparr>year = y,
      rate = of_nat (recognizedCount (counts celebs rs y)) / of_nat (total (counts celebs rs y)),
      sampleSize = total (counts celebs rs y)\<rparr>"

text \<open>One step of the smoothing accumulation, on the pair \<open>(totalWeight, weightedSum)\<close>.\<close>

definition windowStep :: "point list \<Rightarrow> int \<Rightarrow> nat \<times> rat \<Rightarrow> nat \<times> rat" where
  "windowStep d j acc =
     (fst acc + sampleSize (d ! nat j),
      snd acc + rate (d ! nat j) * of_nat (sampleSize (d ! nat j)))"

text \<open>A figure with its relevance window cut down to \<open>[1950, currentYear]\<close>.\<close>

definition clip :: "int \<Rightarrow> Celebrity \<Rightarrow> Celebrity" where
  "clip currentYear c =
     c\<lparr>relevance_window :=
         \<lparr>start = max 1950 (start (relevance_window c)),
          end_year = min currentYear (end_year (relevance_window c))\<rparr>\<rparr>"

text \<open>More sample data: three figures, the first not recognised.\<close>

definition ex_celebs :: "Celebrity list" where
  "ex_celebs = [celeb 1 1970 1976, celeb 2 1977 1983, celeb 3 1977 1983]"

definition ex_answers :: "Response list" where
  "ex_answers = [answer 1 False, answer 2 True, answer 3 True]"

text \<open>Two figures whose windows leave \<open>[1950, 2024]\<close> on either side.\<close>

definition edge_celebs :: "Celebrity list" where
  "edge_celebs = [celeb 1 2019 2025, celeb 2 1945 1951]"

definition edge_answers :: "Response list" where
  "edge_answers = [answer 1 True, answer 2 False]"

text \<open>
  The weight of a raw point in the centre of gravity, and the weighted mean year, stated
  with sums.
\<close>

definition weight :: "point \<Rightarrow> rat" where
  "weight p = rate p * of_nat (sampleSize p)"



text \<open>
  Breadth as the specification words it, over any series of points with a year and a
  rate: the peak rate is the largest rate, floored at 0.01; the threshold is half of it;
  the breadth is the span of the years at or above the threshold, 0 if there are none.
\<close>

definition breadth_spec :: "'a dpoint_scheme list \<Rightarrow> int" where
  "breadth_spec pts =
     (let peakRate = Max (set (1 / 100 # map rate pts));
          threshold = (1 / 2) * peakRate;
          years = map year (filter (\<lambda>p. rate p \<ge> threshold) pts)
      in if years = [] then 0 else Max (set years) - Min (set years))"

text \<open>
  The decades of a smoothed series in the order in which they are first met, the points
  that belong to a decade, and the mean smoothed rate of a decade.
\<close>

fun firsts :: "'a list \<Rightarrow> 'a list" where
  "firsts [] = []"
| "firsts (x # xs) = x # removeAll x (firsts xs)"

definition decades :: "dpoint list \<Rightarrow> string list" where
  "decades smoothed = firsts (map (\<lambda>p. decadeLabel (year p)) smoothed)"

definition members :: "dpoint list \<Rightarrow> string \<Rightarrow> dpoint list" where
  "members smoothed d = filter (\<lambda>p. decadeLabel (year p) = d) smoothed"

definition decadeMean :: "dpoint list \<Rightarrow> string \<Rightarrow> rat" where
  "decadeMean smoothed d =
     sum_list (map rate (members smoothed d)) / of_nat (length (members smoothed d))"

text \<open>The entry of a decade in the table, the empty entry if there is none.\<close>

definition statOf :: "(string \<times> decadeStat) list \<Rightarrow> string \<Rightarrow> decadeStat" where
  "statOf acc d = (case map_of acc d of None \<Rightarrow> \<lparr>count = 0, sum_rate = 0\<rparr> | Some st \<Rightarrow> st)"

text \<open>The step of the peak loop over keys with a valuation \<open>g\<close>.\<close>

definition pick :: "('a \<Rightarrow> rat) \<Rightarrow> 'a \<Rightarrow> 'a \<times> rat \<Rightarrow> 'a \<times> rat" where
  "pick g d peak = (if g d > snd peak then (d, g d) else peak)"

text \<open>
  The mean of a decade as the route computes it: the sum accumulated in the order of the
  series with every addition rounded, divided by the number of members and rounded.
\<close>

definition computedSum :: "(rat \<Rightarrow> rat) \<Rightarrow> dpoint list \<Rightarrow> string \<Rightarrow> rat" where
  "computedSum rnd smoothed d = foldl (\<lambda>s p. rnd (s + rate p)) 0 (members smoothed d)"

definition computedMean :: "(rat \<Rightarrow> rat) \<Rightarrow> dpoint list \<Rightarrow> string \<Rightarrow> rat" where
  "computedMean rnd smoothed d =
     rnd (computedSum rnd smoothed d / of_nat (length (members smoothed d)))"

text \<open>The first decade, in the order met, whose exact mean smoothed rate is the largest.\<close>

definition firstMaxMean :: "dpoint list \<Rightarrow> string option" where
  "firstMaxMean smoothed =
     find (\<lambda>d. decadeMean smoothed d = Max (decadeMean smoothed ` set (decades smoothed)))
       (decades smoothed)"

text \<open>
  A completed session of five figures in which the 1980s and the 2000s hold the same
  smoothed rates in a different order, with its raw and smoothed series in doubles.
\<close>

definition tie_celebs :: "Celebrity list" where
  "tie_celebs = [celeb 1 1983 1994, celeb 2 1953 1961, celeb 3 1998 2006, celeb 4 1991 1998,
                 celeb 5 1962 1968]"

definition tie_answers :: "Response list" where
  "tie_answers = [answer 1 True, answer 2 False, answer 3 True, answer 4 False, answer 5 True]"

definition tie_raw :: "point list" where
  "tie_raw = [
      \<lparr>year = 1953, rate = 0, sampleSize = 1\<rparr>,
      \<lparr>year = 1954, rate = 0, sampleSize = 1\<rparr>,
      \<lparr>year = 1955, rate = 0, sampleSize = 1\<rparr>,
      \<lparr>year = 1956, rate = 0, sampleSize = 1\<rparr>,
      \<lparr>year = 1957, rate = 0, sampleSize = 1\<rparr>,
      \<lparr>year = 1958, rate = 0, sampleSize = 1\<rparr>,
      \<lparr>year = 1959, rate = 0, sampleSize = 1\<rparr>,
      \<lparr>year = 1960, rate = 0, sampleSize = 1\<rparr>,
      \<lparr>year = 1961, rate = 0, sampleSize = 1\<rparr>,
      \<lparr>year = 1962, rate = 1, sampleSize = 1\<rparr>,
      \<lparr>year = 1963, rate = 1, sampleSize = 1\<rparr>,
      \<lparr>year = 1964, rate = 1, sampleSize = 1\<rparr>,
      \<lparr>year = 1965, rate = 1, sampleSize = 1\<rparr>,
      \<lparr>year = 1966, rate = 1, sampleSize = 1\<rparr>,
      \<lparr>year = 1967, rate = 1, sampleSize = 1\<rparr>,
      \<lparr>year = 1968, rate = 1, sampleSize = 1\<rparr>,
      \<lparr>year = 1983, rate = 1, sampleSize = 1\<rparr>,
      \<lparr>year = 1984, rate = 1, sampleSize = 1\<rparr>,
      \<lparr>year = 1985, rate = 1, sampleSize = 1\<rparr>,
      \<lparr>year = 1986, rate = 1, sampleSize = 1\<rparr>,
      \<lparr>year = 1987, rate = 1, sampleSize = 1\<rparr>,
      \<lparr>year = 1988, rate = 1, sampleSize = 1\<rparr>,
      \<lparr>year = 1989, rate = 1, sampleSize = 1\<rparr>,
      \<lparr>year = 1990, rate = 1, sampleSize = 1\<rparr>,
      \<lparr>year = 1991, rate = 1 / 2, sampleSize = 2\<rparr>,
      \<lparr>year = 1992, rate = 1 / 2, sampleSize = 2\<rparr>,
      \<lparr>year = 1993, rate = 1 / 2, sampleSize = 2\<rparr>,
      \<lparr>year = 1994, rate = 1 / 2, sampleSize = 2\<rparr>,
      \<lparr>year = 1995, rate = 0, sampleSize = 1\<rparr>,
      \<lparr>year = 1996, rate = 0, sampleSize = 1\<rparr>,
      \<lparr>year = 1997, rate = 0, sampleSize = 1\<rparr>,
      \<lparr>year = 1998, rate = 1 / 2, sampleSize = 2\<rparr>,
      \<lparr>year = 1999, rate = 1, sampleSize = 1\<rparr>,
      \<lparr>year = 2000, rate = 1, sampleSize = 1\<rparr>,
      \<lparr>year = 2001, rate = 1, sampleSize = 1\<rparr>,
      \<lparr>year = 2002, rate = 1, sampleSize = 1\<rparr>,
      \<lparr>year = 2003, rate = 1, sampleSize = 1\<rparr>,
      \<lparr>year = 2004, rate = 1, sampleSize = 1\<rparr>,
      \<lparr>year = 2005, rate = 1, sampleSize = 1\<rparr>,
      \<lparr>year = 2006, rate = 1, sampleSize = 1\<rparr>]"

definition tie_smoothed :: "dpoint list" where
  "tie_smoothed = [
      \<lparr>year = 1953, rate = 0\<rparr>, \<lparr>year = 1954, rate = 0\<rparr>,
      \<lparr>year = 1955, rate = 0\<rparr>, \<lparr>year = 1956, rate = 0\<rparr>,
      \<lparr>year = 1957, rate = 0\<rparr>, \<lparr>year = 1958, rate = 0\<rparr>,
      \<lparr>year = 1959, rate = 0\<rparr>,
      \<lparr>year = 1960, rate = 3602879701896397 / 18014398509481984\<rparr>,
      \<lparr>year = 1961, rate = 3602879701896397 / 9007199254740992\<rparr>,
      \<lparr>year = 1962, rate = 5404319552844595 / 9007199254740992\<rparr>,
      \<lparr>year = 1963, rate = 3602879701896397 / 4503599627370496\<rparr>,
      \<lparr>year = 1964, rate = 1\<rparr>, \<lparr>year = 1965, rate = 1\<rparr>,
      \<lparr>year = 1966, rate = 1\<rparr>, \<lparr>year = 1967, rate = 1\<rparr>,
      \<lparr>year = 1968, rate = 1\<rparr>, \<lparr>year = 1983, rate = 1\<rparr>,
      \<lparr>year = 1984, rate = 1\<rparr>, \<lparr>year = 1985, rate = 1\<rparr>,
      \<lparr>year = 1986, rate = 1\<rparr>, \<lparr>year = 1987, rate = 1\<rparr>,
      \<lparr>year = 1988, rate = 1\<rparr>,
      \<lparr>year = 1989, rate = 7505999378950827 / 9007199254740992\<rparr>,
      \<lparr>year = 1990, rate = 6433713753386423 / 9007199254740992\<rparr>,
      \<lparr>year = 1991, rate = 5 / 8\<rparr>,
      \<lparr>year = 1992, rate = 2501999792983609 / 4503599627370496\<rparr>,
      \<lparr>year = 1993, rate = 2001599834386887 / 4503599627370496\<rparr>,
      \<lparr>year = 1994, rate = 3 / 8\<rparr>,
      \<lparr>year = 1995, rate = 2573485501354569 / 9007199254740992\<rparr>,
      \<lparr>year = 1996, rate = 2573485501354569 / 9007199254740992\<rparr>,
      \<lparr>year = 1997, rate = 6004799503160661 / 18014398509481984\<rparr>,
      \<lparr>year = 1998, rate = 1 / 2\<rparr>,
      \<lparr>year = 1999, rate = 6004799503160661 / 9007199254740992\<rparr>,
      \<lparr>year = 2000, rate = 7505999378950827 / 9007199254740992\<rparr>,
      \<lparr>year = 2001, rate = 1\<rparr>, \<lparr>year = 2002, rate = 1\<rparr>,
      \<lparr>year = 2003, rate = 1\<rparr>, \<lparr>year = 2004, rate = 1\<rparr>,
      \<lparr>year = 2005, rate = 1\<rparr>, \<lparr>year = 2006, rate = 1\<rparr>]"

section \<open>Properties of the estimator\<close>

lemma fold_min_eq_Min: "fold min ys (y::int) = Min (set (y # ys))"
proof (induction ys arbitrary: y)
  case Nil
  show ?case by simp
next
  case (Cons a ys)
  have "fold min (a # ys) y = Min (set (min a y # ys))"
    using Cons.IH [of "min a y"] by simp
  also have "\<dots> = Min (set (y # a # ys))"
    by (cases "set ys = {}") (auto simp: min.commute min.left_commute)
  finally show ?case .
qed

lemma fold_max_eq_Max: "fold max ys (y::int) = Max (set (y # ys))"
proof (induction ys arbitrary: y)
  case Nil
  show ?case by simp
next
  case (Cons a ys)
  have "fold max (a # ys) y = Max (set (max a y # ys))"
    using Cons.IH [of "max a y"] by simp
  also have "\<dots> = Max (set (y # a # ys))"
    by (cases "set ys = {}") (auto simp: max.commute max.left_commute)
  finally show ?case .
qed

lemma collectYears_range:
  "y \<in> set (collectYears currentYear knownFor) \<Longrightarrow> 1920 \<le> y \<and> y \<le> currentYear"
  by (induction knownFor) (auto split: option.splits if_splits)

lemma windowOfYears_Some:
  assumes "windowOfYears cy years = Some w"
  shows "years \<noteq> [] \<and>
         (if recentred cy years
          then w = \<lparr>start = (max 1950 (Min (set years) - 3) + min cy (Max (set years) + 3)) div 2 - 3,
                    end_year = (max 1950 (Min (set years) - 3) + min cy (Max (set years) + 3)) div 2 + 3\<rparr>
          else w = \<lparr>start = max 1950 (Min (set years) - 3), end_year = min cy (Max (set years) + 3)\<rparr>)"
proof (cases years)
  case Nil
  with assms show ?thesis by (simp add: windowOfYears_def)
next
  case (Cons y ys)
  have mn: "fold min ys y = Min (set years)" and mx: "fold max ys y = Max (set years)"
    unfolding Cons by (rule fold_min_eq_Min, rule fold_max_eq_Max)
  from assms show ?thesis
    unfolding windowOfYears_def recentred_def Cons list.case Let_def mn [unfolded Cons] mx [unfolded Cons]
    by (auto split: if_splits)
qed

lemmas estimator_defs =
  estimateRelevanceWindow_def windowOfYears_def workYear_def getYear_def parseInt_def
  split_first_def isWhiteSpace_def isDigit_def digitsVal_def digitVal_def hint_def

text \<open>
  C4 (Scenario C). The single hint 1994 with current year 2024: the year survives the
  filter, the clamped bounds are 1991 and 1997, their span 6 is not below 5, and the
  estimator returns the window 1991 to 1997 without recentring.
\<close>

theorem C4_scenario_C:
  "collectYears 2024 [hint ''1994-10-14''] = [1994] \<and>
   \<not> recentred 2024 [1994] \<and>
   estimateRelevanceWindow 2024 [hint ''1994-10-14''] = Some \<lparr>start = 1991, end_year = 1997\<rparr>"
  by (simp add: estimator_defs recentred_def)

text \<open>
  C2, as stated, fails. With the single hint 2023 and current year 2024 the clamped
  span is 4, the branch recentres around 2022 and returns 2019 to 2025, past the
  current year; with the single hint 1920 it returns 1933 to 1939, below 1950.
\<close>

theorem C2_counterexample:
  "estimateRelevanceWindow 2024 [hint ''2023-06-01''] = Some \<lparr>start = 2019, end_year = 2025\<rparr> \<and>
   \<not> window_in_range 2024 \<lparr>start = 2019, end_year = 2025\<rparr> \<and>
   estimateRelevanceWindow 2024 [hint ''1920-01-01''] = Some \<lparr>start = 1933, end_year = 1939\<rparr> \<and>
   \<not> window_in_range 2024 \<lparr>start = 1933, end_year = 1939\<rparr>"
  by (simp add: estimator_defs window_in_range_def)

text \<open>
  C2, amended. Whenever the estimator returns a window, \<open>start \<le> end\<close>. If the
  minimum-span branch is not taken, both ends lie in \<open>[1950, currentYear]\<close>. If it is
  taken, the window is not clamped again: it spans exactly 6 years and, for a current
  year from 1950 on, lies in \<open>[1933, currentYear + 3]\<close>.
\<close>

theorem C2_window_bounds:
  assumes "estimateRelevanceWindow currentYear knownFor = Some w"
  shows "start w \<le> end_year w \<and>
    (\<not> recentred currentYear (collectYears currentYear knownFor) \<longrightarrow>
        window_in_range currentYear w) \<and>
    (recentred currentYear (collectYears currentYear knownFor) \<longrightarrow>
        end_year w = start w + 6 \<and>
        (1950 \<le> currentYear \<longrightarrow> 1933 \<le> start w \<and> end_year w \<le> currentYear + 3))"
proof -
  let ?ys = "collectYears currentYear knownFor"
  from assms have w: "windowOfYears currentYear ?ys = Some w"
    by (simp add: estimateRelevanceWindow_def)
  note W = windowOfYears_Some [OF w]
  then have ne: "?ys \<noteq> []" by simp
  have "Min (set ?ys) \<in> set ?ys" "Max (set ?ys) \<in> set ?ys"
    using ne by (simp_all del: Min_in Max_in add: Min_in Max_in)
  then have mn: "1920 \<le> Min (set ?ys)" "Min (set ?ys) \<le> currentYear"
    and mx: "1920 \<le> Max (set ?ys)" "Max (set ?ys) \<le> currentYear"
    using collectYears_range [of _ currentYear knownFor] by blast+
  have mm: "Min (set ?ys) \<le> Max (set ?ys)" using ne by simp
  show ?thesis
  proof (cases "recentred currentYear ?ys")
    case True
    with W have "w = \<lparr>start = (max 1950 (Min (set ?ys) - 3)
                          + min currentYear (Max (set ?ys) + 3)) div 2 - 3,
                       end_year = (max 1950 (Min (set ?ys) - 3)
                          + min currentYear (Max (set ?ys) + 3)) div 2 + 3\<rparr>"
      by simp
    with True mn mx show ?thesis by auto
  next
    case False
    with W have "w = \<lparr>start = max 1950 (Min (set ?ys) - 3),
                       end_year = min currentYear (Max (set ?ys) + 3)\<rparr>"
      by simp
    with False mn mx mm show ?thesis unfolding recentred_def window_in_range_def by auto
  qed
qed

theorem C2_window_bounds_witness:
  "estimateRelevanceWindow 2024 [hint ''1994-10-14''] = Some \<lparr>start = 1991, end_year = 1997\<rparr> \<and>
   \<not> recentred 2024 (collectYears 2024 [hint ''1994-10-14'']) \<and>
   window_in_range 2024 \<lparr>start = 1991, end_year = 1997\<rparr> \<and>
   estimateRelevanceWindow 2024 [hint ''2023-06-01''] = Some \<lparr>start = 2019, end_year = 2025\<rparr> \<and>
   recentred 2024 (collectYears 2024 [hint ''2023-06-01'']) \<and>
   (1933::int) \<le> 2019 \<and> (2025::int) \<le> 2024 + 3"
proof -
  have a: "estimateRelevanceWindow 2024 [hint ''1994-10-14''] = Some \<lparr>start = 1991, end_year = 1997\<rparr>"
    by (simp add: estimator_defs)
  have b: "estimateRelevanceWindow 2024 [hint ''2023-06-01''] = Some \<lparr>start = 2019, end_year = 2025\<rparr>"
    by (simp add: estimator_defs)
  have na: "\<not> recentred 2024 (collectYears 2024 [hint ''1994-10-14''])"
    by (simp add: estimator_defs recentred_def)
  have rb: "recentred 2024 (collectYears 2024 [hint ''2023-06-01''])"
    by (simp add: estimator_defs recentred_def)
  from C2_window_bounds [OF a] C2_window_bounds [OF b] a b na rb show ?thesis by simp
qed

section \<open>Properties of the session transitions\<close>

lemma startSession_row_ok:
  assumes "\<forall>k s. d k = Some s \<longrightarrow> row_ok s"
  shows "\<forall>k s. snd (startSession d sid sel) k = Some s \<longrightarrow> row_ok s"
  using assms by (auto simp: startSession_def row_ok_def)

lemma respond_row_ok:
  assumes "\<forall>k s. d k = Some s \<longrightarrow> row_ok s"
  shows "\<forall>k s. snd (respond d now sid r) k = Some s \<longrightarrow> row_ok s"
  using assms by (auto simp: respond_def row_ok_def Let_def split: option.splits if_splits)

lemma reachable_db_row_ok: "reachable_db d \<Longrightarrow> d k = Some s \<Longrightarrow> row_ok s"
proof (induction arbitrary: k s rule: reachable_db.induct)
  case empty
  then show ?case by simp
next
  case (start d sid selected)
  then show ?case using startSession_row_ok [of d sid selected] by blast
next
  case (respond d now sid r)
  then show ?case using respond_row_ok [of d now sid r] by blast
qed

lemma reachable_answered_db: "reachable_db (answered_db n)"
proof (induction n)
  case 0
  show ?case unfolding answered_db_def started_db_def funpow.simps id_apply
    by (intro reachable_db.start reachable_db.empty)
next
  case (Suc n)
  from reachable_db.respond [OF Suc] show ?case by (simp add: answered_db_def)
qed

lemma started_db_row:
  "started_db ''s1'' =
     Some \<lparr>status_col = ''playing'', celebrities_col = five, current_index = 0,
           responses_col = [], completed_at = None\<rparr>"
  by (simp add: started_db_def startSession_def five_def)

text \<open>
  C5. In every store the routes can produce, a respond request for a session that is
  not in status playing, or whose index has reached the number of figures, is answered
  with the error 400 "Session already complete", and the store is returned exactly
  as it was.
\<close>

theorem C5_respond_rejected:
  assumes "reachable_db d" and "d sid = Some s"
    and "status_col s \<noteq> ''playing'' \<or> current_index s \<ge> int (length (celebrities_col s))"
  shows "respond d now sid rec = (Inl (HttpError 400 ''Session already complete''), d)"
proof -
  from reachable_db_row_ok [OF assms(1,2)] assms(3)
  have "current_index s \<ge> int (length (celebrities_col s))"
    by (auto simp: row_ok_def)
  with assms(2) show ?thesis by (simp add: respond_def)
qed

lemma answered_db_5:
  "answered_db 5 ''s1'' =
     Some \<lparr>status_col = ''results'', celebrities_col = five, current_index = 5,
           responses_col = map (\<lambda>i. answer i True) [1, 2, 3, 4, 5],
           completed_at = Some ''2024-01-01T00:00:00.000Z''\<rparr>"
  by (simp add: answered_db_def eval_nat_numeral respond_def started_db_row Let_def
      five_def celeb_def answer_def)

theorem C5_respond_rejected_witness:
  "reachable_db (answered_db 5) \<and>
   status_col (the (answered_db 5 ''s1'')) = ''results'' \<and>
   respond (answered_db 5) ''2024-01-02T00:00:00.000Z'' ''s1'' False =
     (Inl (HttpError 400 ''Session already complete''), answered_db 5)"
proof -
  have "status_col (the (answered_db 5 ''s1'')) \<noteq> ''playing''"
    by (simp add: answered_db_5)
  then show ?thesis
    using C5_respond_rejected [OF reachable_answered_db answered_db_5, of "''2024-01-02T00:00:00.000Z''" False]
    by (simp add: reachable_answered_db answered_db_5)
qed

lemma reachable_app_current:
  "reachable_app app \<Longrightarrow> status (state app) \<noteq> Intro \<Longrightarrow>
   currentIndex (state app) < length (celebrities (state app)) \<and>
   currentCelebrity (state app) = Some (celebrities (state app) ! currentIndex (state app))"
proof (induction rule: reachable_app.induct)
  case init
  then show ?case by (simp add: initialState_def)
next
  case (start_game app cs sid)
  then show ?case by (cases cs) (auto simp: startGame_def)
next
  case (submit app rec)
  then show ?case by (auto simp: submitResponse_def split: option.splits)
next
  case (next_celebrity app)
  then show ?case
    by (auto simp: nextCelebrity_step_def completeGame_def Let_def split: option.splits if_splits)
next
  case (complete app)
  then show ?case by (auto simp: completeGame_def split: option.splits)
next
  case (go_back app app')
  then show ?case by (auto simp: goBack_def Let_def split: if_splits)
next
  case (change_answer app)
  then show ?case by (auto simp: changeAnswer_def)
next
  case (play_again app)
  then show ?case by (auto simp: playAgain_def initialState_def)
qed

lemma reachable_started_app: "reachable_app started_app"
  unfolding started_app_def
  by (rule reachable_app.start_game [OF reachable_app.init]) (simp_all add: initialState_def five_def)

text \<open>
  C3, as stated, fails on the stored session: the respond route, applied to a freshly
  started session in status playing, stores index 1 and status playing, not the
  unchanged index and status reveal.
\<close>

theorem C3_counterexample:
  "status_col (the (started_db ''s1'')) = ''playing'' \<and>
   current_index (the (started_db ''s1'')) = 0 \<and>
   current_index (the (snd (respond started_db ''2024-01-01T00:00:00.000Z'' ''s1'' True) ''s1'')) = 1 \<and>
   status_col (the (snd (respond started_db ''2024-01-01T00:00:00.000Z'' ''s1'' True) ''s1'')) = ''playing'' \<and>
   \<not> submit_as_specified (the (started_db ''s1''))
        (the (snd (respond started_db ''2024-01-01T00:00:00.000Z'' ''s1'' True) ''s1''))"
  by (simp add: respond_def started_db_row Let_def five_def submit_as_specified_def)

text \<open>
  C3, amended. In every client state the interface can reach with status playing, the
  current index is inside the figure list and \<open>submitResponse\<close> stores (or overwrites)
  the local answer of the figure at that index, sets the status to reveal and records
  the last response, changing nothing else: the index stays. The respond route of the
  server differs: for a stored session whose index is inside the list it appends the
  response, stores the index advanced by one, and stores status results when that was
  the last figure and playing otherwise.
\<close>

theorem C3_submit:
  "(reachable_app app \<and> status (state app) = Playing \<longrightarrow>
      currentIndex (state app) < length (celebrities (state app)) \<and>
      submitResponse rec app =
        \<lparr>state = (state app)\<lparr>status := Reveal, lastResponse := Some rec\<rparr>,
         localResponses = (localResponses app)
           (id' (celebrities (state app) ! currentIndex (state app)) \<mapsto> rec)\<rparr>) \<and>
   (d sid = Some s \<and> 0 \<le> current_index s \<and>
    current_index s < int (length (celebrities_col s)) \<longrightarrow>
      snd (respond d now sid rec) =
        d(sid \<mapsto> s
          \<lparr>current_index := current_index s + 1,
           responses_col := responses_col s @
             [\<lparr>celebrityId = id' (celebrities_col s ! nat (current_index s)),
               recognized = rec, timestamp = now\<rparr>],
           status_col := (if current_index s + 1 \<ge> int (length (celebrities_col s))
                          then ''results'' else ''playing''),
           completed_at := (if current_index s + 1 \<ge> int (length (celebrities_col s))
                            then Some now else None)\<rparr>))"
proof (intro conjI impI)
  assume a: "reachable_app app \<and> status (state app) = Playing"
  then have *: "currentIndex (state app) < length (celebrities (state app)) \<and>
      currentCelebrity (state app) = Some (celebrities (state app) ! currentIndex (state app))"
    using reachable_app_current [of app] by simp
  from * show "currentIndex (state app) < length (celebrities (state app))" by simp
  from * show "submitResponse rec app =
        \<lparr>state = (state app)\<lparr>status := Reveal, lastResponse := Some rec\<rparr>,
         localResponses = (localResponses app)
           (id' (celebrities (state app) ! currentIndex (state app)) \<mapsto> rec)\<rparr>"
    by (simp add: submitResponse_def)
next
  assume "d sid = Some s \<and> 0 \<le> current_index s \<and>
    current_index s < int (length (celebrities_col s))"
  then show "snd (respond d now sid rec) =
        d(sid \<mapsto> s
          \<lparr>current_index := current_index s + 1,
           responses_col := responses_col s @
             [\<lparr>celebrityId = id' (celebrities_col s ! nat (current_index s)),
               recognized = rec, timestamp = now\<rparr>],
           status_col := (if current_index s + 1 \<ge> int (length (celebrities_col s))
                          then ''results'' else ''playing''),
           completed_at := (if current_index s + 1 \<ge> int (length (celebrities_col s))
                            then Some now else None)\<rparr>)"
    by (simp add: respond_def Let_def)
qed

theorem C3_submit_witness:
  "reachable_app started_app \<and> status (state started_app) = Playing \<and>
   status (state (submitResponse True started_app)) = Reveal \<and>
   currentIndex (state (submitResponse True started_app)) = currentIndex (state started_app) \<and>
   localResponses (submitResponse True started_app) 1 = Some True \<and>
   started_db ''s1'' \<noteq> None \<and>
   current_index (the (snd (respond started_db ''2024-01-01T00:00:00.000Z'' ''s1'' True) ''s1'')) = 1"
proof -
  have p: "status (state started_app) = Playing"
    by (simp add: started_app_def startGame_def)
  have c: "celebrities (state started_app) ! currentIndex (state started_app) = celeb 1 1970 1976"
    by (simp add: started_app_def startGame_def five_def)
  let ?s = "\<lparr>status_col = ''playing'', celebrities_col = five, current_index = 0,
           responses_col = [], completed_at = None\<rparr>"
  note T = C3_submit [of started_app True started_db "''s1''" ?s "''2024-01-01T00:00:00.000Z''"]
  have r: "started_db ''s1'' = Some ?s \<and> 0 \<le> current_index ?s \<and>
     current_index ?s < int (length (celebrities_col ?s))"
    by (simp add: started_db_row five_def)
  from T reachable_started_app p
  have s: "submitResponse True started_app =
        \<lparr>state = (state started_app)\<lparr>status := Reveal, lastResponse := Some True\<rparr>,
         localResponses = (localResponses started_app)
           (id' (celebrities (state started_app) ! currentIndex (state started_app)) \<mapsto> True)\<rparr>"
    by blast
  from T r
  have "snd (respond started_db ''2024-01-01T00:00:00.000Z'' ''s1'' True) =
      started_db(''s1'' \<mapsto> ?s
          \<lparr>current_index := current_index ?s + 1,
           responses_col := responses_col ?s @
             [\<lparr>celebrityId = id' (celebrities_col ?s ! nat (current_index ?s)),
               recognized = True, timestamp = ''2024-01-01T00:00:00.000Z''\<rparr>],
           status_col := (if current_index ?s + 1 \<ge> int (length (celebrities_col ?s))
                          then ''results'' else ''playing''),
           completed_at := (if current_index ?s + 1 \<ge> int (length (celebrities_col ?s))
                            then Some ''2024-01-01T00:00:00.000Z'' else None)\<rparr>)"
    by blast
  then have d: "current_index (the (snd (respond started_db ''2024-01-01T00:00:00.000Z'' ''s1'' True) ''s1'')) = 1"
    by simp
  show ?thesis
    by (simp add: reachable_started_app p s c d celeb_def started_db_row)
qed

section \<open>Properties of the tally and the two distributions\<close>

lemma keys_tallyYear: "map fst (tallyYear rec yr ys) = map fst ys"
  by (auto simp: tallyYear_def update_keys map_of_eq_None_iff split: option.splits)

lemma map_of_tallyYear:
  "map_of (tallyYear rec yr ys) y = (if y = yr then map_option (bump rec) (map_of ys y) else map_of ys y)"
  by (auto simp: tallyYear_def update_conv' bump_def split: option.splits)

lemma keys_fold_tallyYear: "map fst (fold (tallyYear rec) xs ys) = map fst ys"
  by (induction xs arbitrary: ys) (simp_all add: keys_tallyYear)

lemma map_of_fold_tallyYear:
  "distinct xs \<Longrightarrow> map_of (fold (tallyYear rec) xs ys) y =
     (if y \<in> set xs then map_option (bump rec) (map_of ys y) else map_of ys y)"
proof (induction xs arbitrary: ys)
  case Nil
  show ?case by simp
next
  case (Cons x xs)
  then show ?case by (auto simp: map_of_tallyYear)
qed

lemma keys_tallyResponse: "map fst (tallyResponse cs r ys) = map fst ys"
  by (simp add: tallyResponse_def keys_fold_tallyYear split: option.splits)

lemma map_of_tallyResponse:
  "map_of (tallyResponse cs r ys) y =
     (if covers cs y r then map_option (bump (recognized r)) (map_of ys y) else map_of ys y)"
  by (simp add: tallyResponse_def covers_def map_of_fold_tallyYear split: option.splits)

lemma keys_fold_tallyResponse: "map fst (fold (tallyResponse cs) rs ys) = map fst ys"
  by (induction rs arbitrary: ys) (simp_all add: keys_tallyResponse)

lemma map_of_fold_tallyResponse:
  "map_of (fold (tallyResponse cs) rs ys) y =
     map_option (\<lambda>sc. \<lparr>recognizedCount = recognizedCount sc + recognizedCount (counts cs rs y),
                        total = total sc + total (counts cs rs y)\<rparr>) (map_of ys y)"
proof (induction rs arbitrary: ys)
  case Nil
  show ?case by (cases "map_of ys y") (simp_all add: counts_def)
next
  case (Cons r rs)
  show ?case
    by (cases "map_of ys y") (auto simp: Cons.IH map_of_tallyResponse counts_def bump_def)
qed

lemma keys_tally: "map fst (tally cy cs rs) = [1950..cy]"
  by (simp add: tally_def keys_fold_tallyResponse initialScores_def comp_def)

lemma map_of_initialScores: "map_of (initialScores cy) y = (if 1950 \<le> y \<and> y \<le> cy then Some \<lparr>recognizedCount = 0, total = 0\<rparr> else None)"
  by (auto simp: initialScores_def map_of_map_restrict restrict_map_def)

lemma map_of_tally:
  "map_of (tally cy cs rs) y = (if 1950 \<le> y \<and> y \<le> cy then Some (counts cs rs y) else None)"
  by (simp add: tally_def map_of_fold_tallyResponse map_of_initialScores)

lemma alist_repr: "distinct (map fst xs) \<Longrightarrow> map (\<lambda>k. (k, the (map_of xs k))) (map fst xs) = xs"
proof (induction xs)
  case Nil
  show ?case by simp
next
  case (Cons p xs)
  have "map (\<lambda>k. (k, the (map_of (p # xs) k))) (map fst xs) = map (\<lambda>k. (k, the (map_of xs k))) (map fst xs)"
    using Cons.prems by (intro map_cong) (auto simp: rev_image_eqI)
  with Cons show ?case by (cases p) simp
qed

lemma tally_eq: "tally cy cs rs = map (\<lambda>y. (y, counts cs rs y)) [1950..cy]"
proof -
  have "tally cy cs rs = map (\<lambda>k. (k, the (map_of (tally cy cs rs) k))) (map fst (tally cy cs rs))"
    by (rule alist_repr [symmetric]) (simp add: keys_tally)
  also have "\<dots> = map (\<lambda>y. (y, counts cs rs y)) [1950..cy]"
    by (simp add: keys_tally map_of_tally)
  finally show ?thesis .
qed

lemma distribution_of_map:
  "distribution_of (map (\<lambda>y. (y, f y)) ys) =
     map (\<lambda>y. \<lparr>year = y, rate = of_nat (recognizedCount (f y)) / of_nat (total (f y)), sampleSize = total (f y)\<rparr>)
       (filter (\<lambda>y. total (f y) > 0) ys)"
  by (induction ys) simp_all

lemma distribution_eq:
  "distribution_of (tally cy cs rs) =
     map (rawPoint cs rs) (filter (\<lambda>y. total (counts cs rs y) > 0) [1950..cy])"
  unfolding tally_eq distribution_of_map rawPoint_def ..

lemma raw_year_range:
  "p \<in> set (distribution_of (tally cy cs rs)) \<Longrightarrow> 1950 \<le> year p \<and> year p \<le> cy"
  by (auto simp: distribution_eq rawPoint_def)

lemma raw_rate_range:
  assumes "p \<in> set (distribution_of (tally cy cs rs))"
  shows "0 \<le> rate p \<and> rate p \<le> 1 \<and> 0 < sampleSize p"
proof -
  from assms obtain y where p: "p = rawPoint cs rs y" and t: "total (counts cs rs y) > 0"
    by (auto simp: distribution_eq)
  have "length (filter (\<lambda>r. covers cs y r \<and> recognized r) rs) \<le> length (filter (covers cs y) rs)"
    by (induction rs) auto
  then have "recognizedCount (counts cs rs y) \<le> total (counts cs rs y)"
    by (simp add: counts_def)
  with t show ?thesis unfolding p rawPoint_def by (simp add: divide_le_eq)
qed

lemma year_smoothPoint: "year (smoothPoint d i) = year (d ! i)"
  by (simp add: smoothPoint_def Let_def case_prod_beta)

lemma rate_smoothPoint:
  "rate (smoothPoint d i) =
     (let s = windowSums d (max 0 (int i - 2)) (min (int (length d) - 1) (int i + 2))
      in if fst s > 0 then snd s / of_nat (fst s) else 0)"
  by (simp add: smoothPoint_def Let_def case_prod_beta)

lemma year_smoothed: "map year (smoothed_of d) = map year d"
proof -
  have "map year (smoothed_of d) = map (\<lambda>i. year (d ! i)) [0..<length d]"
    by (simp add: smoothed_of_def year_smoothPoint)
  also have "\<dots> = map year (map ((!) d) [0..<length d])"
    by (simp only: map_map comp_def)
  also have "\<dots> = map year d" by (simp only: map_nth)
  finally show ?thesis .
qed

lemma windowSums_alt: "windowSums d a b = fold (windowStep d) [a..b] (0, 0)"
proof -
  have "(\<lambda>j (totalWeight, weightedSum).
             let weight = sampleSize (d ! nat j)
             in (totalWeight + weight, weightedSum + rate (d ! nat j) * of_nat weight)) = windowStep d"
    by (intro ext) (simp add: windowStep_def Let_def split: prod.splits)
  then show ?thesis by (simp only: windowSums_def)
qed

lemma fold_window_bounds:
  assumes "\<forall>j \<in> set js. 0 \<le> rate (d ! nat j) \<and> rate (d ! nat j) \<le> 1"
    and "0 \<le> snd acc" "snd acc \<le> of_nat (fst acc)"
  shows "0 \<le> snd (fold (windowStep d) js acc) \<and>
         snd (fold (windowStep d) js acc) \<le> of_nat (fst (fold (windowStep d) js acc))"
  using assms
proof (induction js arbitrary: acc)
  case Nil
  then show ?case by simp
next
  case (Cons j js)
  let ?w = "sampleSize (d ! nat j)"
  let ?r = "rate (d ! nat j)"
  from Cons.prems(1) have r: "0 \<le> ?r" "?r \<le> 1" by simp_all
  have w: "(0::rat) \<le> of_nat ?w" by simp
  have "0 \<le> ?r * of_nat ?w" using r(1) w by (rule mult_nonneg_nonneg)
  with Cons.prems(2) have a: "0 \<le> snd (windowStep d j acc)"
    unfolding windowStep_def snd_conv by (rule add_nonneg_nonneg)
  have "?r * of_nat ?w \<le> of_nat ?w" using w r by (rule mult_left_le_one_le)
  with Cons.prems(3) have "snd acc + ?r * of_nat ?w \<le> of_nat (fst acc) + of_nat ?w"
    by (rule add_mono)
  then have b: "snd (windowStep d j acc) \<le> of_nat (fst (windowStep d j acc))"
    unfolding windowStep_def snd_conv fst_conv of_nat_add .
  have "\<forall>j \<in> set js. 0 \<le> rate (d ! nat j) \<and> rate (d ! nat j) \<le> 1"
    using Cons.prems(1) by simp
  from Cons.IH [OF this a b] show ?case by simp
qed

lemma smoothPoint_rate_range:
  assumes "\<forall>p \<in> set d. 0 \<le> rate p \<and> rate p \<le> 1" and "i < length d"
  shows "0 \<le> rate (smoothPoint d i) \<and> rate (smoothPoint d i) \<le> 1"
proof -
  let ?a = "max 0 (int i - 2)" and ?b = "min (int (length d) - 1) (int i + 2)"
  have "\<forall>j \<in> set [?a..?b]. 0 \<le> rate (d ! nat j) \<and> rate (d ! nat j) \<le> 1"
  proof
    fix j assume "j \<in> set [?a..?b]"
    then have "0 \<le> j" "j < int (length d)" by auto
    then have "d ! nat j \<in> set d" by (intro nth_mem) linarith
    with assms(1) show "0 \<le> rate (d ! nat j) \<and> rate (d ! nat j) \<le> 1" by blast
  qed
  from fold_window_bounds [OF this, of "(0, 0)"]
  have "0 \<le> snd (windowSums d ?a ?b) \<and> snd (windowSums d ?a ?b) \<le> of_nat (fst (windowSums d ?a ?b))"
    by (simp add: windowSums_alt)
  then show ?thesis by (simp add: rate_smoothPoint Let_def divide_le_eq)
qed

lemma smoothed_rate_range:
  assumes "\<forall>p \<in> set d. 0 \<le> rate p \<and> rate p \<le> 1" and "q \<in> set (smoothed_of d)"
  shows "0 \<le> rate q \<and> rate q \<le> 1"
proof -
  from assms(2) obtain i where "i < length d" "q = smoothPoint d i"
    by (auto simp: smoothed_of_def)
  with smoothPoint_rate_range [OF assms(1)] show ?thesis by blast
qed

lemma find_clip: "find (\<lambda>c. id' c = k) (map (clip cy) cs) = map_option (clip cy) (find (\<lambda>c. id' c = k) cs)"
  by (induction cs) (auto simp: clip_def)

lemma covers_clip: "1950 \<le> y \<Longrightarrow> y \<le> cy \<Longrightarrow> covers (map (clip cy) cs) y r = covers cs y r"
  by (auto simp: covers_def find_clip clip_def split: option.splits)

lemma tally_clip: "tally cy (map (clip cy) cs) rs = tally cy cs rs"
proof -
  have "counts (map (clip cy) cs) rs y = counts cs rs y" if "y \<in> set [1950..cy]" for y
  proof -
    from that have "covers (map (clip cy) cs) y = covers cs y"
      by (intro ext covers_clip) simp_all
    then show ?thesis by (simp add: counts_def)
  qed
  then show ?thesis unfolding tally_eq by (intro map_cong refl) simp
qed

lemma results_distribution:
  "res_distribution (results cy cs rs) = smoothed_of (distribution_of (tally cy cs rs))"
  unfolding results_def Let_def by (rule ResultsResponse.select_convs)

lemma ex_raw:
  "distribution_of (tally 2024 ex_celebs ex_answers) =
     [\<lparr>year = 1970, rate = 0, sampleSize = 1\<rparr>, \<lparr>year = 1971, rate = 0, sampleSize = 1\<rparr>,
      \<lparr>year = 1972, rate = 0, sampleSize = 1\<rparr>, \<lparr>year = 1973, rate = 0, sampleSize = 1\<rparr>,
      \<lparr>year = 1974, rate = 0, sampleSize = 1\<rparr>, \<lparr>year = 1975, rate = 0, sampleSize = 1\<rparr>,
      \<lparr>year = 1976, rate = 0, sampleSize = 1\<rparr>, \<lparr>year = 1977, rate = 1, sampleSize = 2\<rparr>,
      \<lparr>year = 1978, rate = 1, sampleSize = 2\<rparr>, \<lparr>year = 1979, rate = 1, sampleSize = 2\<rparr>,
      \<lparr>year = 1980, rate = 1, sampleSize = 2\<rparr>, \<lparr>year = 1981, rate = 1, sampleSize = 2\<rparr>,
      \<lparr>year = 1982, rate = 1, sampleSize = 2\<rparr>, \<lparr>year = 1983, rate = 1, sampleSize = 2\<rparr>]"
  by code_simp

lemma ex_smoothed:
  "res_distribution (results 2024 ex_celebs ex_answers) =
     [\<lparr>year = 1970, rate = 0\<rparr>, \<lparr>year = 1971, rate = 0\<rparr>, \<lparr>year = 1972, rate = 0\<rparr>,
      \<lparr>year = 1973, rate = 0\<rparr>, \<lparr>year = 1974, rate = 0\<rparr>, \<lparr>year = 1975, rate = 1 / 3\<rparr>,
      \<lparr>year = 1976, rate = 4 / 7\<rparr>, \<lparr>year = 1977, rate = 3 / 4\<rparr>,
      \<lparr>year = 1978, rate = 8 / 9\<rparr>, \<lparr>year = 1979, rate = 1\<rparr>, \<lparr>year = 1980, rate = 1\<rparr>,
      \<lparr>year = 1981, rate = 1\<rparr>, \<lparr>year = 1982, rate = 1\<rparr>, \<lparr>year = 1983, rate = 1\<rparr>]"
  unfolding results_distribution ex_raw by code_simp

lemma edge_raw:
  "distribution_of (tally 2024 edge_celebs edge_answers) =
     [\<lparr>year = 1950, rate = 0, sampleSize = 1\<rparr>, \<lparr>year = 1951, rate = 0, sampleSize = 1\<rparr>,
      \<lparr>year = 2019, rate = 1, sampleSize = 1\<rparr>, \<lparr>year = 2020, rate = 1, sampleSize = 1\<rparr>,
      \<lparr>year = 2021, rate = 1, sampleSize = 1\<rparr>, \<lparr>year = 2022, rate = 1, sampleSize = 1\<rparr>,
      \<lparr>year = 2023, rate = 1, sampleSize = 1\<rparr>, \<lparr>year = 2024, rate = 1, sampleSize = 1\<rparr>]"
  by code_simp

text \<open>
  C6. For all figures and answers, every rate of the raw distribution and every rate
  of the smoothed distribution returned by the results route lies between 0 and 1.
\<close>

theorem C6_rates_in_unit_interval:
  "(\<forall>p \<in> set (distribution_of (tally currentYear celebs rs)). 0 \<le> rate p \<and> rate p \<le> 1) \<and>
   (\<forall>q \<in> set (res_distribution (results currentYear celebs rs)). 0 \<le> rate q \<and> rate q \<le> 1)"
proof -
  have raw: "\<forall>p \<in> set (distribution_of (tally currentYear celebs rs)). 0 \<le> rate p \<and> rate p \<le> 1"
    using raw_rate_range by blast
  show ?thesis
    unfolding results_distribution using raw smoothed_rate_range [OF raw] by blast
qed

theorem C6_rates_in_unit_interval_witness:
  "\<lparr>year = 1977, rate = 1, sampleSize = 2\<rparr> \<in> set (distribution_of (tally 2024 ex_celebs ex_answers)) \<and>
   \<lparr>year = 1976, rate = 4 / 7\<rparr> \<in> set (res_distribution (results 2024 ex_celebs ex_answers)) \<and>
   (0::rat) \<le> 4 / 7 \<and> (4 / 7 :: rat) \<le> 1"
  using C6_rates_in_unit_interval [of 2024 ex_celebs ex_answers]
  by (simp add: ex_raw ex_smoothed)

text \<open>
  C9. The year table has exactly the keys 1950 to the current year, so every year of
  the raw distribution, and of the smoothed distribution, lies in that range; and the
  years of a relevance window outside the range are skipped without any effect: the
  tally is the same as for the windows cut down to the range.
\<close>

theorem C9_years_in_range:
  "(\<forall>p \<in> set (distribution_of (tally currentYear celebs rs)).
       1950 \<le> year p \<and> year p \<le> currentYear) \<and>
   (\<forall>q \<in> set (res_distribution (results currentYear celebs rs)).
       1950 \<le> year q \<and> year q \<le> currentYear) \<and>
   map fst (tally currentYear celebs rs) = [1950..currentYear] \<and>
   tally currentYear (map (clip currentYear) celebs) rs = tally currentYear celebs rs"
proof -
  have raw: "\<forall>p \<in> set (distribution_of (tally currentYear celebs rs)).
       1950 \<le> year p \<and> year p \<le> currentYear"
    using raw_year_range by blast
  have yrs: "year ` set (res_distribution (results currentYear celebs rs)) =
        year ` set (distribution_of (tally currentYear celebs rs))"
    using arg_cong [OF year_smoothed, of set "distribution_of (tally currentYear celebs rs)"]
    by (simp only: results_distribution set_map)
  have sm: "\<forall>q \<in> set (res_distribution (results currentYear celebs rs)).
       1950 \<le> year q \<and> year q \<le> currentYear"
  proof
    fix q assume "q \<in> set (res_distribution (results currentYear celebs rs))"
    then have "year q \<in> year ` set (distribution_of (tally currentYear celebs rs))"
      unfolding yrs [symmetric] by (rule imageI)
    then obtain p where "p \<in> set (distribution_of (tally currentYear celebs rs))" "year q = year p"
      by blast
    with raw show "1950 \<le> year q \<and> year q \<le> currentYear" by simp
  qed
  from raw sm keys_tally tally_clip show ?thesis by blast
qed

theorem C9_years_in_range_witness:
  "relevance_window (edge_celebs ! 0) = \<lparr>start = 2019, end_year = 2025\<rparr> \<and>
   \<lparr>year = 2024, rate = 1, sampleSize = 1\<rparr> \<in> set (distribution_of (tally 2024 edge_celebs edge_answers)) \<and>
   map year (distribution_of (tally 2024 edge_celebs edge_answers)) =
     [1950, 1951, 2019, 2020, 2021, 2022, 2023, 2024] \<and>
   tally 2024 (map (clip 2024) edge_celebs) edge_answers = tally 2024 edge_celebs edge_answers"
proof -
  have w: "relevance_window (edge_celebs ! 0) = \<lparr>start = 2019, end_year = 2025\<rparr>"
    by (simp add: edge_celebs_def celeb_def)
  from C9_years_in_range [of 2024 edge_celebs edge_answers] w show ?thesis
    by (simp add: edge_raw)
qed

section \<open>Properties of the metrics\<close>

lemma fold_max_Max: "fold max xs (x::'a::linorder) = Max (set (x # xs))"
proof (induction xs arbitrary: x)
  case Nil
  show ?case by simp
next
  case (Cons a xs)
  have "fold max (a # xs) x = Max (set (max a x # xs))"
    using Cons.IH [of "max a x"] by simp
  also have "\<dots> = Max (set (x # a # xs))"
    by (cases "set xs = {}") (auto simp: max.commute max.left_commute)
  finally show ?case .
qed





lemma results_breadth:
  "breadth (res_metrics (results cy cs rs)) = breadth_of (distribution_of (tally cy cs rs))"
  unfolding results_def Let_def by simp


lemma breadth_of_eq: "breadth_of d = breadth_spec d"
proof -
  have "(case ys of [] \<Rightarrow> 0 | y # ys' \<Rightarrow> fold max ys' y - fold min ys' y) =
        (if ys = [] then 0 else Max (set ys) - Min (set ys))" for ys :: "int list"
  proof (cases ys)
    case Nil
    then show ?thesis by simp
  next
    case (Cons y ys')
    then show ?thesis by (simp only: list.case fold_max_eq_Max fold_min_eq_Min list.simps if_False)
  qed
  then show ?thesis
    unfolding breadth_of_def breadth_spec_def Let_def fold_max_Max by simp
qed



lemma empty_raw: "distribution_of (tally 2024 [] []) = []"
  by code_simp



text \<open>
  C1, as stated, fails: the breadth in the payload is not the specified breadth of the
  smoothed series. For three figures (1970 to 1976 not recognised, two at 1977 to 1983
  recognised) the route reports 6, while the smoothed series, whose rate in 1976 is
  4/7, has breadth 7.
\<close>

theorem C1_counterexample:
  "breadth (res_metrics (results 2024 ex_celebs ex_answers)) = 6 \<and>
   breadth_spec (res_distribution (results 2024 ex_celebs ex_answers)) = 7"
proof
  show "breadth (res_metrics (results 2024 ex_celebs ex_answers)) = 6"
    unfolding results_breadth ex_raw by code_simp
  show "breadth_spec (res_distribution (results 2024 ex_celebs ex_answers)) = 7"
    unfolding ex_smoothed by code_simp
qed

text \<open>
  C1, amended. The breadth is computed over the raw (unsmoothed) distribution: the
  peak rate is the largest raw rate, floored at 0.01, the threshold is half the peak
  rate, and the breadth is the largest minus the smallest year among the years whose
  raw rate is at least the threshold, 0 when there is no such year.
\<close>

theorem C1_breadth_over_raw:
  "breadth (res_metrics (results currentYear celebs rs)) =
     breadth_spec (distribution_of (tally currentYear celebs rs))"
  by (simp only: results_breadth breadth_of_eq)

section \<open>The peak decade\<close>

lemma set_firsts: "set (firsts xs) = set xs"
  by (induction xs) auto

lemma distinct_firsts: "distinct (firsts xs)"
  by (induction xs) (auto simp: distinct_removeAll)

lemma filter_notin_removeAll:
  "l \<in> K \<Longrightarrow> filter (\<lambda>d. d \<notin> K) (removeAll l xs) = filter (\<lambda>d. d \<notin> K) xs"
  by (induction xs) auto

lemma filter_append_removeAll:
  "filter (\<lambda>d. d \<notin> set (ks @ [l])) xs = filter (\<lambda>d. d \<notin> set ks) (removeAll l xs)"
  by (induction xs) auto

lemma alist_statOf:
  assumes "distinct (map fst xs)"
  shows "xs = map (\<lambda>k. (k, statOf xs k)) (map fst xs)"
proof -
  have "map (\<lambda>k. (k, statOf xs k)) (map fst xs) = map (\<lambda>k. (k, the (map_of xs k))) (map fst xs)"
    by (rule map_cong) (auto simp: statOf_def map_of_eq_None_iff split: option.splits)
  with alist_repr [OF assms] show ?thesis by simp
qed

lemma members_nonempty: "d \<in> set (decades sm) \<Longrightarrow> members sm d \<noteq> []"
  by (auto simp: decades_def set_firsts members_def filter_empty_conv)

lemma pick_pair: "pick g d (pd, pa) = (if g d > pa then (d, g d) else (pd, pa))"
  by (simp add: pick_def)

lemma Max_image_Cons_less:
  assumes "d \<in> set ds" and "g e < g d"
  shows "Max (g ` set (e # ds)) = Max (g ` set ds) \<and> g e \<noteq> Max (g ` set ds)"
proof -
  have "g d \<le> Max (g ` set ds)" using assms(1) by simp
  with assms(2) have lt: "g e < Max (g ` set ds)" by simp
  have ne: "g ` set ds \<noteq> {}" using assms(1) by auto
  have "Max (g ` set (e # ds)) = max (g e) (Max (g ` set ds))"
    unfolding list.set image_insert by (rule Max_insert [OF _ ne]) simp
  also have "\<dots> = Max (g ` set ds)" using lt by (rule max_absorb2 [OF less_imp_le])
  finally show ?thesis using lt by (simp only: less_imp_neq simp_thms)
qed

lemma fold_pick:
  "fold (pick g) ds (pd, pa) =
     (if \<forall>d \<in> set ds. g d \<le> pa then (pd, pa)
      else (the (find (\<lambda>d. g d = Max (g ` set ds)) ds), Max (g ` set ds)))"
proof (induction ds arbitrary: pd pa)
  case Nil
  show ?case by simp
next
  case (Cons e ds)
  show ?case
  proof (cases "g e > pa")
    case True
    note gt = this
    have s: "fold (pick g) (e # ds) (pd, pa) = fold (pick g) ds (e, g e)"
      using gt by (simp only: fold_simps comp_apply pick_pair if_True)
    have n: "\<not> (\<forall>d \<in> set (e # ds). g d \<le> pa)" using gt by auto
    show ?thesis
    proof (cases "\<forall>d \<in> set ds. g d \<le> g e")
      case True
      then have "Max (g ` set (e # ds)) = g e"
        by (intro Max_eqI) auto
      then have "(the (find (\<lambda>d. g d = Max (g ` set (e # ds))) (e # ds)), Max (g ` set (e # ds))) = (e, g e)"
        by simp
      with True n gt show ?thesis unfolding s Cons.IH by simp
    next
      case False
      then obtain d where d: "d \<in> set ds" "g e < g d" by force
      note m = Max_image_Cons_less [OF d]
      from m have "find (\<lambda>d. g d = Max (g ` set (e # ds))) (e # ds) = find (\<lambda>d. g d = Max (g ` set ds)) ds"
        by (simp only: find.simps if_False)
      with False n m gt show ?thesis unfolding s Cons.IH by auto
    qed
  next
    case False
    note le = this
    have s: "fold (pick g) (e # ds) (pd, pa) = fold (pick g) ds (pd, pa)"
      using le by (simp only: fold_simps comp_apply pick_pair if_False)
    show ?thesis
    proof (cases "\<forall>d \<in> set ds. g d \<le> pa")
      case True
      with le have "\<forall>d \<in> set (e # ds). g d \<le> pa" by auto
      with True le show ?thesis unfolding s Cons.IH by simp
    next
      case False
      then obtain d where d: "d \<in> set ds" "pa < g d" by force
      with le have "g e < g d" by simp
      note m = Max_image_Cons_less [OF d(1) this]
      from m have "find (\<lambda>d. g d = Max (g ` set (e # ds))) (e # ds) = find (\<lambda>d. g d = Max (g ` set ds)) ds"
        by (simp only: find.simps if_False)
      moreover from False have "\<not> (\<forall>d \<in> set (e # ds). g d \<le> pa)" by auto
      ultimately show ?thesis using False m le unfolding s Cons.IH by auto
    qed
  qed
qed

lemma find_Max_Some:
  assumes "ds \<noteq> []"
  shows "\<exists>d. find (\<lambda>d. g d = Max (g ` set ds)) ds = Some (d::'a)"
proof -
  have "Max (g ` set ds) \<in> g ` set ds" using assms by (intro Max_in) simp_all
  then obtain d where "d \<in> set ds" "g d = Max (g ` set ds)" by auto
  then have "find (\<lambda>d. g d = Max (g ` set ds)) ds \<noteq> None"
    by (auto simp: find_None_iff)
  then show ?thesis by auto
qed

lemma keys_addDecade_r:
  "map fst (addDecade_r rnd p acc) =
     (if decadeLabel (year p) \<in> set (map fst acc) then map fst acc
      else map fst acc @ [decadeLabel (year p)])"
  by (simp add: addDecade_r_def Let_def update_keys)

lemma keys_fold_addDecade_r:
  "map fst (fold (addDecade_r rnd) sm acc) =
     map fst acc @ filter (\<lambda>d. d \<notin> set (map fst acc)) (firsts (map (\<lambda>p. decadeLabel (year p)) sm))"
proof (induction sm arbitrary: acc)
  case Nil
  show ?case by simp
next
  case (Cons p sm)
  let ?l = "decadeLabel (year p)"
  let ?f = "firsts (map (\<lambda>p. decadeLabel (year p)) sm)"
  show ?case
  proof (cases "?l \<in> set (map fst acc)")
    case True
    then have k: "map fst (addDecade_r rnd p acc) = map fst acc" by (simp add: keys_addDecade_r)
    have "filter (\<lambda>d. d \<notin> set (map fst acc)) (removeAll ?l ?f) = filter (\<lambda>d. d \<notin> set (map fst acc)) ?f"
      using True by (rule filter_notin_removeAll)
    with True show ?thesis by (simp add: Cons.IH k)
  next
    case False
    then have k: "map fst (addDecade_r rnd p acc) = map fst acc @ [?l]"
      by (simp add: keys_addDecade_r)
    have "filter (\<lambda>d. d \<notin> set (map fst acc @ [?l])) ?f
          = filter (\<lambda>d. d \<notin> set (map fst acc)) (removeAll ?l ?f)"
      by (rule filter_append_removeAll)
    with False show ?thesis by (simp add: Cons.IH k)
  qed
qed

lemma statOf_addDecade_r:
  "statOf (addDecade_r rnd p acc) d =
     (if decadeLabel (year p) = d
      then \<lparr>count = count (statOf acc d) + 1, sum_rate = rnd (sum_rate (statOf acc d) + rate p)\<rparr>
      else statOf acc d)"
  by (simp add: statOf_def addDecade_r_def Let_def update_conv')

lemma statOf_fold_addDecade_r:
  "statOf (fold (addDecade_r rnd) sm acc) d =
     \<lparr>count = count (statOf acc d) + length (members sm d),
      sum_rate = foldl (\<lambda>s p. rnd (s + rate p)) (sum_rate (statOf acc d)) (members sm d)\<rparr>"
proof (induction sm arbitrary: acc)
  case Nil
  show ?case by (simp add: members_def)
next
  case (Cons p sm)
  show ?case by (simp add: Cons.IH statOf_addDecade_r members_def)
qed

lemma distinct_keys_addDecade_r:
  "distinct (map fst acc) \<Longrightarrow> distinct (map fst (addDecade_r rnd p acc))"
  by (simp add: addDecade_r_def Let_def distinct_update)

lemma distinct_keys_fold_r:
  "distinct (map fst acc) \<Longrightarrow> distinct (map fst (fold (addDecade_r rnd) sm acc))"
  by (induction sm arbitrary: acc) (simp_all add: distinct_keys_addDecade_r)

lemma decadeRates_r_eq:
  "decadeRates_r rnd sm =
     map (\<lambda>d. (d, \<lparr>count = length (members sm d), sum_rate = computedSum rnd sm d\<rparr>))
       (decades sm)"
proof -
  have k: "map fst (decadeRates_r rnd sm) = decades sm"
    by (simp add: decadeRates_r_def keys_fold_addDecade_r decades_def)
  have d: "distinct (map fst (decadeRates_r rnd sm))"
    unfolding decadeRates_r_def by (rule distinct_keys_fold_r) simp
  have s: "statOf (decadeRates_r rnd sm) d =
      \<lparr>count = length (members sm d), sum_rate = computedSum rnd sm d\<rparr>" for d
    by (simp add: decadeRates_r_def statOf_fold_addDecade_r computedSum_def) (simp add: statOf_def)
  from alist_statOf [OF d] show ?thesis unfolding k s .
qed

lemma avgRate_r_entry:
  assumes "d \<in> set (decades sm)"
  shows "avgRate_r rnd \<lparr>count = length (members sm d), sum_rate = computedSum rnd sm d\<rparr>
         = computedMean rnd sm d"
  using members_nonempty [OF assms] by (simp add: avgRate_r_def computedMean_def)

lemma fold_peakStep_r_eq:
  "fold (peakStep_r rnd) (decadeRates_r rnd sm) acc = fold (pick (computedMean rnd sm)) (decades sm) acc"
proof -
  let ?st = "\<lambda>d. \<lparr>count = length (members sm d), sum_rate = computedSum rnd sm d\<rparr>"
  have "fold (peakStep_r rnd) (decadeRates_r rnd sm) acc
        = fold (\<lambda>d. peakStep_r rnd (d, ?st d)) (decades sm) acc"
    by (simp only: decadeRates_r_eq fold_map comp_def)
  also have "\<dots> = fold (pick (computedMean rnd sm)) (decades sm) acc"
  proof (rule fold_cong [OF refl refl])
    fix d assume "d \<in> set (decades sm)"
    then have "avgRate_r rnd (?st d) = computedMean rnd sm d" by (rule avgRate_r_entry)
    then show "peakStep_r rnd (d, ?st d) = pick (computedMean rnd sm) d"
      by (intro ext) (simp add: peakStep_r_def pick_def)
  qed
  finally show ?thesis .
qed

lemma peakDecade_r_eq:
  "peakDecade_r rnd sm =
     (if \<forall>d \<in> set (decades sm). computedMean rnd sm d \<le> 0 then ''1990s''
      else the (find (\<lambda>d. computedMean rnd sm d = Max (computedMean rnd sm ` set (decades sm)))
                 (decades sm)))"
  by (simp add: peakDecade_r_def fold_peakStep_r_eq fold_pick)

lemma distribution_r_id: "distribution_r id ys = distribution_of ys"
  by (induction ys rule: distribution_of.induct) simp_all

lemma smoothed_r_id: "smoothed_r id d = smoothed_of d"
proof -
  have "windowSums_r id d a b = windowSums d a b" for a b
    by (simp add: windowSums_r_def windowSums_def)
  then have "smoothPoint_r id d = smoothPoint d"
    by (intro ext) (simp add: smoothPoint_r_def smoothPoint_def Let_def split_def)
  then show ?thesis by (simp add: smoothed_r_def smoothed_of_def)
qed

lemma peakDecade_r_id: "peakDecade_r id sm = peakDecade_of sm"
proof -
  have a: "addDecade_r id = addDecade"
    by (intro ext) (simp add: addDecade_r_def addDecade_def)
  have b: "peakStep_r id = peakStep"
    by (intro ext) (simp add: peakStep_r_def peakStep_def avgRate_r_def avgRate_def)
  show ?thesis
    by (simp add: peakDecade_r_def peakDecade_of_def decadeRates_r_def decadeRates_of_def a b)
qed

lemma results_peakDecade_id:
  "peakDecade (res_metrics (results cy cs rs)) = routePeakDecade id cy cs rs"
proof -
  have "peakDecade (res_metrics (results cy cs rs)) =
        peakDecade_of (smoothed_of (distribution_of (tally cy cs rs)))"
    unfolding results_def Let_def by simp
  then show ?thesis
    by (simp only: routePeakDecade_def routeSmoothed_def distribution_r_id smoothed_r_id
        peakDecade_r_id)
qed

subsection \<open>The session with two tied decades\<close>

text \<open>
  Two known doubles as a check of \<open>fl\<close>: 0.1 is \<open>3602879701896397 \<times> 2 ^ - 55\<close>, and
  \<open>0.1 + 0.2\<close> is 0.30000000000000004, that is \<open>1351079888211149 \<times> 2 ^ - 52\<close>.
\<close>

lemma fl_known_doubles:
  "fl (1 / 10) = 3602879701896397 / 36028797018963968"
  "fl (fl (1 / 10) + fl (1 / 5)) = 1351079888211149 / 4503599627370496"
  by code_simp+

lemma fl_zero: "fl 0 = 0"
  by (simp add: fl_def)

lemma fl_table:
  "fl (1 / 5) = 3602879701896397 / 18014398509481984"
  "fl (3602879701896397 / 18014398509481984) = 3602879701896397 / 18014398509481984"
  "fl (2 / 7) = 2573485501354569 / 9007199254740992"
  "fl (1 / 3) = 6004799503160661 / 18014398509481984"
  "fl (3 / 8) = 3 / 8"
  "fl (2 / 5) = 3602879701896397 / 9007199254740992"
  "fl (4 / 9) = 2001599834386887 / 4503599627370496"
  "fl (5388235268461129 / 11258999068426240) = 4310588214768903 / 9007199254740992"
  "fl (1 / 2) = 1 / 2"
  "fl (5 / 9) = 2501999792983609 / 4503599627370496"
  "fl (3 / 5) = 5404319552844595 / 9007199254740992"
  "fl (10808639105689191 / 18014398509481984) = 1351079888211149 / 2251799813685248"
  "fl (5 / 8) = 5 / 8"
  "fl (2 / 3) = 6004799503160661 / 9007199254740992"
  "fl (5 / 7) = 6433713753386423 / 9007199254740992"
  "fl (6433713753386423 / 9007199254740992) = 6433713753386423 / 9007199254740992"
  "fl (7 / 9) = 7005599420354105 / 9007199254740992"
  "fl (4 / 5) = 3602879701896397 / 4503599627370496"
  "fl (5 / 6) = 7505999378950827 / 9007199254740992"
  "fl (7505999378950827 / 9007199254740992) = 7505999378950827 / 9007199254740992"
  "fl (7693649363424597 / 7881299347898368) = 8792742129628111 / 9007199254740992"
  "fl (549546383101757 / 562949953421312) = 549546383101757 / 562949953421312"
  "fl (1) = 1"
  "fl (10808639105689191 / 9007199254740992) = 1351079888211149 / 1125899906842624"
  "fl (12063213287599543 / 9007199254740992) = 1507901660949943 / 1125899906842624"
  "fl (16513198633691819 / 9007199254740992) = 4128299658422955 / 2251799813685248"
  "fl (8533606436783381 / 4503599627370496) = 8533606436783381 / 4503599627370496"
  "fl (2) = 2"
  "fl (9007199254740993 / 4503599627370496) = 2"
  "fl (2633801567792567 / 1125899906842624) = 2633801567792567 / 1125899906842624"
  "fl (3056014032858551 / 1125899906842624) = 3056014032858551 / 1125899906842624"
  "fl (6380099472108203 / 2251799813685248) = 6380099472108203 / 2251799813685248"
  "fl (3) = 3"
  "fl (27021597764222977 / 9007199254740992) = 3"
  "fl (29595083265577545 / 9007199254740992) = 3699385408197193 / 1125899906842624"
  "fl (65194966034315749 / 18014398509481984) = 8149370754289469 / 2251799813685248"
  "fl (8631899285793451 / 2251799813685248) = 8631899285793451 / 2251799813685248"
  "fl (4) = 4"
  "fl (9275270661132093 / 2251799813685248) = 2318817665283023 / 562949953421312"
  "fl (43105882147689029 / 9007199254740992) = 5388235268461129 / 1125899906842624"
  "fl (10883699099478699 / 2251799813685248) = 2720924774869675 / 562949953421312"
  "fl (5) = 5"
  "fl (3283874728290987 / 562949953421312) = 3283874728290987 / 562949953421312"
  "fl (6) = 6"
  "fl (61549194907396779 / 9007199254740992) = 7693649363424597 / 1125899906842624"
  "fl (3846824681712299 / 562949953421312) = 3846824681712299 / 562949953421312"
  "fl (7) = 7"
  by code_simp+

lemma distribution_r_map:
  "distribution_r rnd ys = map (\<lambda>p. p\<lparr>rate := rnd (rate p)\<rparr>) (distribution_of ys)"
  by (induction ys rule: distribution_of.induct) simp_all

lemma tie_raw_exact: "distribution_of (tally 2024 tie_celebs tie_answers) = tie_raw"
  unfolding tie_raw_def by code_simp

lemma tie_raw_fl: "distribution_r fl (tally 2024 tie_celebs tie_answers) = tie_raw"
  unfolding distribution_r_map tie_raw_exact unfolding tie_raw_def
  by (simp add: fl_zero fl_table)

lemma windowSums_r_Cons:
  "windowSums_r rnd d a b = fold (\<lambda>j acc. (fst acc + sampleSize (d ! nat j),
        rnd (snd acc + rnd (rate (d ! nat j) * of_nat (sampleSize (d ! nat j)))))) [a..b] (0, 0)"
  by (simp add: windowSums_r_def Let_def split_def)

lemma tie_smoothed_fl: "smoothed_r fl tie_raw = tie_smoothed"
  unfolding smoothed_r_def smoothPoint_r_def windowSums_r_Cons tie_raw_def tie_smoothed_def
  by (simp add: Let_def upto_rec1 fl_zero fl_table)

lemma showInt_1950: "showInt 1950 = ''1950''"
  by code_simp

lemma decade_1950s: "1950 \<le> y \<Longrightarrow> y \<le> 1959 \<Longrightarrow> decadeLabel y = ''1950s''"
proof -
  assume "1950 \<le> y" "y \<le> 1959"
  then have "y div 10 = 195" by presburger
  then show ?thesis by (simp add: decadeLabel_def showInt_1950)
qed

lemma showInt_1960: "showInt 1960 = ''1960''"
  by code_simp

lemma decade_1960s: "1960 \<le> y \<Longrightarrow> y \<le> 1969 \<Longrightarrow> decadeLabel y = ''1960s''"
proof -
  assume "1960 \<le> y" "y \<le> 1969"
  then have "y div 10 = 196" by presburger
  then show ?thesis by (simp add: decadeLabel_def showInt_1960)
qed

lemma showInt_1980: "showInt 1980 = ''1980''"
  by code_simp

lemma decade_1980s: "1980 \<le> y \<Longrightarrow> y \<le> 1989 \<Longrightarrow> decadeLabel y = ''1980s''"
proof -
  assume "1980 \<le> y" "y \<le> 1989"
  then have "y div 10 = 198" by presburger
  then show ?thesis by (simp add: decadeLabel_def showInt_1980)
qed

lemma showInt_1990: "showInt 1990 = ''1990''"
  by code_simp

lemma decade_1990s: "1990 \<le> y \<Longrightarrow> y \<le> 1999 \<Longrightarrow> decadeLabel y = ''1990s''"
proof -
  assume "1990 \<le> y" "y \<le> 1999"
  then have "y div 10 = 199" by presburger
  then show ?thesis by (simp add: decadeLabel_def showInt_1990)
qed

lemma showInt_2000: "showInt 2000 = ''2000''"
  by code_simp

lemma decade_2000s: "2000 \<le> y \<Longrightarrow> y \<le> 2009 \<Longrightarrow> decadeLabel y = ''2000s''"
proof -
  assume "2000 \<le> y" "y \<le> 2009"
  then have "y div 10 = 200" by presburger
  then show ?thesis by (simp add: decadeLabel_def showInt_2000)
qed

lemmas tie_labels = decade_1950s decade_1960s decade_1980s decade_1990s decade_2000s

lemma tie_route_smoothed: "routeSmoothed fl 2024 tie_celebs tie_answers = tie_smoothed"
  by (simp only: routeSmoothed_def tie_raw_fl tie_smoothed_fl)

lemma tie_decades: "decades tie_smoothed = [''1950s'', ''1960s'', ''1980s'', ''1990s'', ''2000s'']"
  unfolding decades_def tie_smoothed_def by (simp add: tie_labels)

lemma tie_computed_1950: "computedMean fl tie_smoothed ''1950s'' = 0"
  unfolding computedMean_def computedSum_def members_def tie_smoothed_def
  by (simp add: tie_labels fl_zero fl_table)

lemma tie_mean_1950: "decadeMean tie_smoothed ''1950s'' = 0"
  unfolding decadeMean_def members_def tie_smoothed_def
  by (simp add: tie_labels)

lemma tie_computed_1960: "computedMean fl tie_smoothed ''1960s'' = 7005599420354105 / 9007199254740992"
  unfolding computedMean_def computedSum_def members_def tie_smoothed_def
  by (simp add: tie_labels fl_zero fl_table)

lemma tie_mean_1960: "decadeMean tie_smoothed ''1960s'' = 126100789566373889 / 162129586585337856"
  unfolding decadeMean_def members_def tie_smoothed_def
  by (simp add: tie_labels)

lemma tie_computed_1980: "computedMean fl tie_smoothed ''1980s'' = 8792742129628111 / 9007199254740992"
  unfolding computedMean_def computedSum_def members_def tie_smoothed_def
  by (simp add: tie_labels fl_zero fl_table)

lemma tie_mean_1980: "decadeMean tie_smoothed ''1980s'' = 61549194907396779 / 63050394783186944"
  unfolding decadeMean_def members_def tie_smoothed_def
  by (simp add: tie_labels)

lemma tie_computed_1990: "computedMean fl tie_smoothed ''1990s'' = 4310588214768903 / 9007199254740992"
  unfolding computedMean_def computedSum_def members_def tie_smoothed_def
  by (simp add: tie_labels fl_zero fl_table)

lemma tie_mean_1990: "decadeMean tie_smoothed ''1990s'' = 17242352859075613 / 36028797018963968"
  unfolding decadeMean_def members_def tie_smoothed_def
  by (simp add: tie_labels)

lemma tie_computed_2000: "computedMean fl tie_smoothed ''2000s'' = 549546383101757 / 562949953421312"
  unfolding computedMean_def computedSum_def members_def tie_smoothed_def
  by (simp add: tie_labels fl_zero fl_table)

lemma tie_mean_2000: "decadeMean tie_smoothed ''2000s'' = 61549194907396779 / 63050394783186944"
  unfolding decadeMean_def members_def tie_smoothed_def
  by (simp add: tie_labels)

lemma tie_find_computed:
  "find (\<lambda>d. computedMean fl tie_smoothed d =
              Max (computedMean fl tie_smoothed ` set (decades tie_smoothed)))
     (decades tie_smoothed) = Some ''2000s''"
  by (simp add: tie_decades tie_computed_1950 tie_computed_1960 tie_computed_1980 tie_computed_1990 tie_computed_2000)

lemma tie_first_max_mean: "firstMaxMean tie_smoothed = Some ''1980s''"
  by (simp add: firstMaxMean_def tie_decades tie_mean_1950 tie_mean_1960 tie_mean_1980 tie_mean_1990 tie_mean_2000)

lemma tie_peak: "peakDecade_r fl tie_smoothed = ''2000s''"
proof -
  have "\<not> (\<forall>d \<in> set (decades tie_smoothed). computedMean fl tie_smoothed d \<le> 0)"
    by (simp add: tie_decades tie_computed_2000)
  then show ?thesis by (simp only: peakDecade_r_eq if_False tie_find_computed option.sel)
qed

lemma empty_route_smoothed: "routeSmoothed fl 2024 [] [] = []"
  by (simp add: routeSmoothed_def distribution_r_map empty_raw smoothed_r_def)

text \<open>
  C10, as stated, fails on the arithmetic of the route. In the session of five figures
  with windows 1983 to 1994, 1953 to 1961, 1998 to 2006, 1991 to 1998 and 1962 to 1968,
  answered yes, no, yes, no, yes, the 1980s and the 2000s have the same mean smoothed
  rate, and the 1980s are met first; the route, summing doubles in year order, computes
  a larger mean for the 2000s and returns them.
\<close>

theorem C10_counterexample:
  "routePeakDecade fl 2024 tie_celebs tie_answers = ''2000s'' \<and>
   firstMaxMean (routeSmoothed fl 2024 tie_celebs tie_answers) = Some ''1980s'' \<and>
   decadeMean (routeSmoothed fl 2024 tie_celebs tie_answers) ''1980s'' =
     decadeMean (routeSmoothed fl 2024 tie_celebs tie_answers) ''2000s''"
  by (simp add: routePeakDecade_def tie_route_smoothed tie_peak tie_first_max_mean
      tie_mean_1980 tie_mean_2000)

text \<open>
  C10, amended. The peak decade is the default 1990s when the smoothed distribution is
  empty, and when no decade has a computed mean above 0; otherwise it is the first
  decade, in the order in which the decades are met in the smoothed series, whose
  computed mean is the largest, where the computed mean of a decade is the double sum
  of its smoothed rates, accumulated in year order, divided by their number. Decades
  with equal exact means can have different computed means, so among them the first
  need not win.
\<close>

theorem C10_peak_decade_computed:
  "(routeSmoothed fl currentYear celebs rs = [] \<longrightarrow>
      routePeakDecade fl currentYear celebs rs = ''1990s'') \<and>
   ((\<forall>d \<in> set (decades (routeSmoothed fl currentYear celebs rs)).
        computedMean fl (routeSmoothed fl currentYear celebs rs) d \<le> 0) \<longrightarrow>
      routePeakDecade fl currentYear celebs rs = ''1990s'') \<and>
   (\<not> (\<forall>d \<in> set (decades (routeSmoothed fl currentYear celebs rs)).
        computedMean fl (routeSmoothed fl currentYear celebs rs) d \<le> 0) \<longrightarrow>
      find (\<lambda>d. computedMean fl (routeSmoothed fl currentYear celebs rs) d =
                 Max (computedMean fl (routeSmoothed fl currentYear celebs rs) `
                        set (decades (routeSmoothed fl currentYear celebs rs))))
        (decades (routeSmoothed fl currentYear celebs rs)) =
      Some (routePeakDecade fl currentYear celebs rs))"
proof -
  let ?sm = "routeSmoothed fl currentYear celebs rs"
  let ?g = "computedMean fl ?sm"
  have a: "?sm = [] \<longrightarrow> peakDecade_r fl ?sm = ''1990s''"
    by (simp add: peakDecade_r_eq decades_def)
  have b: "(\<forall>d \<in> set (decades ?sm). ?g d \<le> 0) \<longrightarrow> peakDecade_r fl ?sm = ''1990s''"
    by (simp add: peakDecade_r_eq)
  have c: "find (\<lambda>d. ?g d = Max (?g ` set (decades ?sm))) (decades ?sm)
        = Some (peakDecade_r fl ?sm)"
    if n: "\<not> (\<forall>d \<in> set (decades ?sm). ?g d \<le> 0)"
  proof -
    from n have "decades ?sm \<noteq> []" by auto
    from find_Max_Some [OF this, of ?g] obtain d
      where d: "find (\<lambda>d. ?g d = Max (?g ` set (decades ?sm))) (decades ?sm) = Some d"
      by blast
    moreover from n have "peakDecade_r fl ?sm =
        the (find (\<lambda>d. ?g d = Max (?g ` set (decades ?sm))) (decades ?sm))"
      by (simp only: peakDecade_r_eq if_False)
    ultimately show ?thesis by simp
  qed
  from a b c show ?thesis unfolding routePeakDecade_def by blast
qed

theorem C10_peak_decade_computed_witness:
  "decades (routeSmoothed fl 2024 tie_celebs tie_answers) = [''1950s'', ''1960s'', ''1980s'', ''1990s'', ''2000s''] \<and>
   computedMean fl (routeSmoothed fl 2024 tie_celebs tie_answers) ''1980s'' = 8792742129628111 / 9007199254740992 \<and>
   computedMean fl (routeSmoothed fl 2024 tie_celebs tie_answers) ''2000s'' = 549546383101757 / 562949953421312 \<and>
   routePeakDecade fl 2024 tie_celebs tie_answers = ''2000s'' \<and>
   routeSmoothed fl 2024 [] [] = [] \<and>
   routePeakDecade fl 2024 [] [] = ''1990s''"
proof -
  have n: "\<not> (\<forall>d \<in> set (decades (routeSmoothed fl 2024 tie_celebs tie_answers)).
        computedMean fl (routeSmoothed fl 2024 tie_celebs tie_answers) d \<le> 0)"
    by (simp add: tie_route_smoothed tie_decades tie_computed_2000)
  from C10_peak_decade_computed [of 2024 tie_celebs tie_answers] n
  have "Some ''2000s'' = Some (routePeakDecade fl 2024 tie_celebs tie_answers)"
    unfolding tie_route_smoothed tie_find_computed by blast
  then have "routePeakDecade fl 2024 tie_celebs tie_answers = ''2000s''"
    by simp
  moreover from C10_peak_decade_computed [of 2024 "[]" "[]"] empty_route_smoothed
  have "routePeakDecade fl 2024 [] [] = ''1990s''" by blast
  ultimately show ?thesis
    by (simp add: tie_route_smoothed tie_decades tie_computed_1980 tie_computed_2000
        empty_route_smoothed)
qed

section \<open>No division by zero in the metrics\<close>

lemma divide_checked_Some: "b \<noteq> 0 \<Longrightarrow> divide_checked a b = Some (a / b)"
  by (simp add: divide_checked_def)

lemma distribution_checked_eq: "distribution_checked ys = Some (distribution_of ys)"
proof (induction ys)
  case Nil
  show ?case by simp
next
  case (Cons e ys)
  obtain yr sc where e: "e = (yr, sc)" by (cases e)
  show ?case unfolding e by (simp add: Cons.IH divide_checked_Some)
qed

lemma smoothPoint_checked_eq: "smoothPoint_checked d i = Some (smoothPoint d i)"
  by (simp add: smoothPoint_checked_def smoothPoint_def Let_def case_prod_beta divide_checked_Some)

lemma those_map_Some: "those (map (\<lambda>x. Some (f x)) xs) = Some (map f xs)"
  by (induction xs) simp_all

lemma smoothed_checked_eq: "smoothed_checked d = Some (smoothed_of d)"
proof -
  have "smoothPoint_checked d = (\<lambda>i. Some (smoothPoint d i))"
    by (rule ext) (rule smoothPoint_checked_eq)
  then show ?thesis
    by (simp only: smoothed_checked_def smoothed_of_def those_map_Some)
qed

lemma avgRate_checked_eq: "avgRate_checked st = Some (avgRate st)"
  by (simp add: avgRate_checked_def avgRate_def divide_checked_Some)

lemma fold_peakStep_checked: "fold peakStep_checked es (Some pk) = Some (fold peakStep es pk)"
  by (induction es arbitrary: pk) (simp_all add: peakStep_checked_def peakStep_def avgRate_checked_eq)

lemma peakDecade_checked_eq: "peakDecade_checked sm = Some (peakDecade_of sm)"
  by (simp add: peakDecade_checked_def peakDecade_of_def fold_peakStep_checked)

lemma centerOfGravity_checked_eq: "centerOfGravity_checked cy d = Some (centerOfGravity_of cy d)"
  by (simp add: centerOfGravity_checked_def centerOfGravity_of_def case_prod_beta divide_checked_Some)

lemma overallRate_checked_eq: "overallRate_checked rs = Some (overallRate_of rs)"
  by (simp add: overallRate_checked_def overallRate_of_def Let_def divide_checked_Some)

lemma meanRate_checked_eq: "meanRate_checked ds = Some (meanRate ds)"
  by (simp add: meanRate_checked_def meanRate_def divide_checked_Some)

lemma nostalgiaIndex_checked_eq: "nostalgiaIndex_checked sm = Some (nostalgiaIndex_of sm)"
  by (simp add: nostalgiaIndex_checked_def nostalgiaIndex_of_def Let_def meanRate_checked_eq divide_checked_Some)

lemma results_checked_eq: "results_checked cy cs rs = Some (results cy cs rs)"
  by (simp add: results_checked_def results_def Let_def distribution_checked_eq smoothed_checked_eq
      peakDecade_checked_eq centerOfGravity_checked_eq overallRate_checked_eq
      nostalgiaIndex_checked_eq divide_checked_Some)

lemma counts_Nil: "counts cs [] y = \<lparr>recognizedCount = 0, total = 0\<rparr>"
  by (simp add: counts_def)

lemma raw_no_answers: "distribution_of (tally cy cs []) = []"
  by (simp add: distribution_eq counts_Nil)

lemma results_no_answers:
  "results cy cs [] =
     \<lparr>res_distribution = [],
      res_metrics = \<lparr>peakDecade = ''1990s'', centerOfGravity = cy, breadth = 0,
                     overallRate = 0, nostalgiaIndex = 1\<rparr>,
      res_celebrities = cs, res_responses = []\<rparr>"
  by (simp add: results_def raw_no_answers smoothed_of_def peakDecade_of_def decadeRates_of_def
      centerOfGravity_of_def gravitySums_def breadth_of_def overallRate_of_def
      nostalgiaIndex_of_def meanRate_def)

text \<open>
  C8. For all figures and answers the computation with failing divisions produces a
  payload, the one of the route: no division of the metrics computation (raw rate,
  smoothing weight sum, decade mean, centre-of-gravity weight, overall rate, the two
  nostalgia means and their ratio) is evaluated on a zero denominator. With no answers
  the payload holds the fallback values: empty distribution, peak decade 1990s, centre
  of gravity the current year, breadth 0, overall rate 0, nostalgia index 1.
\<close>

theorem C8_metrics_never_fail:
  "results_checked currentYear celebs rs = Some (results currentYear celebs rs) \<and>
   results currentYear celebs [] =
     \<lparr>res_distribution = [],
      res_metrics = \<lparr>peakDecade = ''1990s'', centerOfGravity = currentYear, breadth = 0,
                     overallRate = 0, nostalgiaIndex = 1\<rparr>,
      res_celebrities = celebs, res_responses = []\<rparr>"
  by (simp only: results_checked_eq results_no_answers simp_thms)

end
